theory Spec2Isabelle
  imports Complex_Main
begin

section \<open>Invoice PDF generation (src/app/utils/generateInvoice.ts)\<close>

text \<open>
  A shallow embedding of \<^verbatim>\<open>generateInvoice.ts\<close>. The browser, the network, Firestore
  and the jsPDF library are not part of the repository; what the code asks of them is
  a field of the record \<open>env\<close>, so every function below is a pure function of its
  arguments and of the environment. Promises are awaited one after the other in the
  source, so \<^verbatim>\<open>async\<close> functions are ordinary functions here; a rejected promise or a
  thrown exception is the value \<open>Throws\<close>. The failures that the source catches are
  modelled (storage, JSON, fetch, file reader, image, Firestore, \<^verbatim>\<open>addImage\<close>), and so
  is the \<^verbatim>\<open>TypeError\<close> of reading a property of \<^verbatim>\<open>undefined\<close> or \<^verbatim>\<open>null\<close>; the import
  of jsPDF, its other drawing calls and \<^verbatim>\<open>doc.save\<close> are taken to return.
\<close>

subsection \<open>JavaScript values\<close>

text \<open>
  A JavaScript number is an IEEE 754 double: \<open>NaN\<close>, one of the two infinities, or a
  finite value, which is given by the rational number it denotes. The two zeros are one
  value: this module cannot tell them apart (both are false, both print as \<^verbatim>\<open>0\<close> and
  \<^verbatim>\<open>0.00\<close>, and the product of a zero is a zero or \<open>NaN\<close> whatever its sign).
\<close>

datatype number = NaN | PosInf | NegInf | Fin rat

text \<open>\<^verbatim>\<open>Boolean(n)\<close> for a number: neither \<^verbatim>\<open>NaN\<close> nor zero.\<close>

definition truthy_number :: "number \<Rightarrow> bool" where
  "truthy_number n = (case n of NaN \<Rightarrow> False | Fin x \<Rightarrow> x \<noteq> 0 | _ \<Rightarrow> True)"

text \<open>
  The rounding of a real result to a double (round to nearest, ties to even). For a
  value \<open>a > 0\<close> with \<open>2\<^sup>e \<le> a < 2\<^sup>e\<^sup>+\<^sup>1\<close> the doubles around \<open>a\<close> are the multiples of
  \<open>2\<^sup>q\<close>, where \<open>q = e - 52\<close> for a normal number and \<open>q = - 1074\<close> for a subnormal one;
  \<open>a\<close> becomes the nearest multiple, the even one when two are as near. The result is
  infinite when it reaches \<open>2\<^sup>1\<^sup>0\<^sup>2\<^sup>4\<close>: the exponent is above 1023, or it is 1023 and the
  multiple is \<open>2\<^sup>5\<^sup>3\<close>.
\<close>

definition pow2 :: "int \<Rightarrow> rat" where
  "pow2 k = (if 0 \<le> k then 2 ^ nat k else 1 / 2 ^ nat (- k))"

function bit_length :: "int \<Rightarrow> nat" where
  "bit_length n = (if n \<le> 0 then 0 else Suc (bit_length (n div 2)))"
  by pat_completeness auto
termination
  by (relation "measure nat") auto

declare bit_length.simps [simp del]

text \<open>
  The exponent \<open>e\<close> of a positive rational \<open>p / q\<close>: the difference of the bit lengths
  of \<open>p\<close> and \<open>q\<close>, or one less.
\<close>

definition floor_log2 :: "rat \<Rightarrow> int" where
  "floor_log2 a =
     (let (p, q) = quotient_of a;
          c = int (bit_length p) - int (bit_length q)
      in if pow2 c \<le> a then c else c - 1)"

definition round_half_even :: "rat \<Rightarrow> int" where
  "round_half_even m =
     (let f = \<lfloor>m\<rfloor>; r = m - of_int f
      in if r < 1 / 2 then f else if 1 / 2 < r then f + 1 else if even f then f else f + 1)"

definition to_double :: "rat \<Rightarrow> number" where
  "to_double x =
     (if x = 0 then Fin 0
      else (let a = \<bar>x\<bar>;
                e = floor_log2 a;
                q = max e (- 1022) - 52;
                n = round_half_even (a / pow2 q)
            in if 1023 < e \<or> (e = 1023 \<and> n = 2 ^ 53) then (if x < 0 then NegInf else PosInf)
               else Fin (of_int (if x < 0 then - n else n) * pow2 q)))"

text \<open>
  \<^verbatim>\<open>a * b\<close> on numbers: \<open>NaN\<close> if an operand is \<open>NaN\<close> or if one is infinite and the
  other zero, an infinity of the sign of the product if an operand is infinite,
  and the rounded product otherwise.
\<close>

definition infinity :: "bool \<Rightarrow> number" where
  "infinity negative = (if negative then NegInf else PosInf)"

definition times_infinity :: "bool \<Rightarrow> number \<Rightarrow> number" where
  "times_infinity negative n =
     (case n of
        NaN \<Rightarrow> NaN
      | PosInf \<Rightarrow> infinity negative
      | NegInf \<Rightarrow> infinity (\<not> negative)
      | Fin x \<Rightarrow> if x = 0 then NaN else infinity (negative \<noteq> (x < 0)))"

definition mul :: "number \<Rightarrow> number \<Rightarrow> number" where
  "mul a b =
     (case a of
        NaN \<Rightarrow> NaN
      | PosInf \<Rightarrow> times_infinity False b
      | NegInf \<Rightarrow> times_infinity True b
      | Fin x \<Rightarrow>
          (case b of
             NaN \<Rightarrow> NaN
           | PosInf \<Rightarrow> times_infinity False a
           | NegInf \<Rightarrow> times_infinity True a
           | Fin y \<Rightarrow> to_double (x * y)))"

text \<open>\<^verbatim>\<open>a ?? b\<close>: \<^verbatim>\<open>undefined\<close> and \<^verbatim>\<open>null\<close> are both \<open>None\<close>.\<close>

definition nullish :: "'a option \<Rightarrow> 'a \<Rightarrow> 'a" where
  "nullish a b = (case a of None \<Rightarrow> b | Some x \<Rightarrow> x)"

text \<open>\<^verbatim>\<open>a || b\<close> on strings: the empty string is the only falsy string.\<close>

definition or_else :: "string \<Rightarrow> string \<Rightarrow> string" where
  "or_else a b = (if a \<noteq> [] then a else b)"

text \<open>\<^verbatim>\<open>Boolean(s)\<close> for an optional string, as in \<^verbatim>\<open>if (company.name)\<close>.\<close>

definition truthy_string :: "string option \<Rightarrow> bool" where
  "truthy_string s = (case s of None \<Rightarrow> False | Some t \<Rightarrow> t \<noteq> [])"

text \<open>
  Strings are lists of bytes: a JavaScript string in UTF-8. \<^verbatim>\<open>String.prototype.trim\<close>
  removes the white space and the line terminators at both ends: U+0009 to U+000D,
  U+0020, U+00A0, U+1680, U+2000 to U+200A, U+2028, U+2029, U+202F, U+205F, U+3000 and
  U+FEFF, here each one by its bytes. In UTF-8 no character ends with the bytes of
  another one, so the bytes of a white space character at the end of a string are that
  character.
\<close>

definition white_space :: "string list" where
  "white_space =
     [[CHR 0x09], [CHR 0x0A], [CHR 0x0B], [CHR 0x0C], [CHR 0x0D], [CHR 0x20],
      [CHR 0xC2, CHR 0xA0],
      [CHR 0xE1, CHR 0x9A, CHR 0x80],
      [CHR 0xE2, CHR 0x80, CHR 0x80], [CHR 0xE2, CHR 0x80, CHR 0x81],
      [CHR 0xE2, CHR 0x80, CHR 0x82], [CHR 0xE2, CHR 0x80, CHR 0x83],
      [CHR 0xE2, CHR 0x80, CHR 0x84], [CHR 0xE2, CHR 0x80, CHR 0x85],
      [CHR 0xE2, CHR 0x80, CHR 0x86], [CHR 0xE2, CHR 0x80, CHR 0x87],
      [CHR 0xE2, CHR 0x80, CHR 0x88], [CHR 0xE2, CHR 0x80, CHR 0x89],
      [CHR 0xE2, CHR 0x80, CHR 0x8A],
      [CHR 0xE2, CHR 0x80, CHR 0xA8], [CHR 0xE2, CHR 0x80, CHR 0xA9],
      [CHR 0xE2, CHR 0x80, CHR 0xAF],
      [CHR 0xE2, CHR 0x81, CHR 0x9F],
      [CHR 0xE3, CHR 0x80, CHR 0x80],
      [CHR 0xEF, CHR 0xBB, CHR 0xBF]]"

text \<open>
  The number of bytes of the white space character that a string starts with, or ends
  with; 0 when there is none.
\<close>

definition leading_space :: "string \<Rightarrow> nat" where
  "leading_space s =
     (case filter (\<lambda>w. take (length w) s = w) white_space of [] \<Rightarrow> 0 | w # _ \<Rightarrow> length w)"

definition trailing_space :: "string \<Rightarrow> nat" where
  "trailing_space s =
     (case filter (\<lambda>w. length w \<le> length s \<and> drop (length s - length w) s = w) white_space of
        [] \<Rightarrow> 0
      | w # _ \<Rightarrow> length w)"

function trimStart :: "string \<Rightarrow> string" where
  "trimStart s =
     (if s = [] \<or> leading_space s = 0 then s else trimStart (drop (leading_space s) s))"
  by pat_completeness auto
termination
  by (relation "measure length") auto

function trimEnd :: "string \<Rightarrow> string" where
  "trimEnd s =
     (if s = [] \<or> trailing_space s = 0 then s
      else trimEnd (take (length s - trailing_space s) s))"
  by pat_completeness auto
termination
  by (relation "measure length") auto

declare trimStart.simps [simp del] trimEnd.simps [simp del]

definition trim :: "string \<Rightarrow> string" where
  "trim s = trimEnd (trimStart s)"

text \<open>\<^verbatim>\<open>Array.prototype.join\<close>.\<close>

fun join :: "string \<Rightarrow> string list \<Rightarrow> string" where
  "join sep [] = []"
| "join sep [x] = x"
| "join sep (x # y # ys) = x @ sep @ join sep (y # ys)"

text \<open>\<^verbatim>\<open>xs.filter(Boolean)\<close> on an array of strings.\<close>

definition filter_Boolean :: "string list \<Rightarrow> string list" where
  "filter_Boolean xs = filter (\<lambda>s. s \<noteq> []) xs"

text \<open>
  \<^verbatim>\<open>Array.from(new Set(xs))\<close>: a set keeps its elements in the order of their first
  insertion.
\<close>

definition Set_add :: "'a \<Rightarrow> 'a list \<Rightarrow> 'a list" where
  "Set_add x s = (if x \<in> set s then s else s @ [x])"

definition Array_from_Set :: "'a list \<Rightarrow> 'a list" where
  "Array_from_Set xs = fold Set_add xs []"

text \<open>\<^verbatim>\<open>Object.fromEntries\<close>: a later entry overwrites an earlier one with the same key.\<close>

definition Object_fromEntries :: "(string \<times> string) list \<Rightarrow> (string \<rightharpoonup> string)" where
  "Object_fromEntries entries = fold (\<lambda>(k, v) m. m(k \<mapsto> v)) entries Map.empty"

subsubsection \<open>Characters and the regular expression of the file name\<close>

definition lower_alpha :: string where
  "lower_alpha = ''abcdefghijklmnopqrstuvwxyz''"

definition upper_alpha :: string where
  "upper_alpha = ''ABCDEFGHIJKLMNOPQRSTUVWXYZ''"

definition digit_chars :: string where
  "digit_chars = ''0123456789''"

text \<open>
  \<^verbatim>\<open>toLowerCase\<close> on ASCII letters; other bytes are left as they are. The module
  applies it only to the result of the replacement below, which has no other letters.
\<close>

definition toLowerCase_char :: "char \<Rightarrow> char" where
  "toLowerCase_char c =
     (case map_of (zip upper_alpha lower_alpha) c of Some l \<Rightarrow> l | None \<Rightarrow> c)"

definition toLowerCase :: "string \<Rightarrow> string" where
  "toLowerCase s = map toLowerCase_char s"

text \<open>
  The character class \<^verbatim>\<open>[a-z0-9-_]\<close> under the flag \<^verbatim>\<open>i\<close>: ASCII letters of both
  cases, digits, hyphen and underscore.
\<close>

definition safe_char :: "char \<Rightarrow> bool" where
  "safe_char c \<longleftrightarrow> c \<in> set (lower_alpha @ upper_alpha @ digit_chars @ ''-_'')"

text \<open>
  \<^verbatim>\<open>s.replace(/[bad]+/g, new)\<close>: scanning from the left, a character of the class starts
  a match that takes every following character of the class (the quantifier is
  greedy); the match is replaced by \<open>new\<close> and the scan goes on after it.
\<close>

function replace_runs :: "(char \<Rightarrow> bool) \<Rightarrow> string \<Rightarrow> string \<Rightarrow> string" where
  "replace_runs bad new [] = []"
| "replace_runs bad new (c # cs) =
     (if bad c then new @ replace_runs bad new (dropWhile bad cs)
      else c # replace_runs bad new cs)"
  by pat_completeness auto
termination
  by (relation "measure (\<lambda>(bad, new, s). length s)")
     (auto simp: le_imp_less_Suc length_dropWhile_le)

text \<open>
  The words of the specification, for comparison with \<open>replace_runs\<close>: the string is
  cut into its maximal runs of characters that are all in the class or all outside it,
  and every run in the class is replaced.
\<close>

function maximal_runs :: "('a \<Rightarrow> bool) \<Rightarrow> 'a list \<Rightarrow> 'a list list" where
  "maximal_runs P [] = []"
| "maximal_runs P (x # xs) =
     (x # takeWhile (\<lambda>y. P y = P x) xs) # maximal_runs P (dropWhile (\<lambda>y. P y = P x) xs)"
  by pat_completeness auto
termination
  by (relation "measure (\<lambda>(P, xs). length xs)")
     (auto simp: le_imp_less_Suc length_dropWhile_le)

definition replace_each_run :: "(char \<Rightarrow> bool) \<Rightarrow> string \<Rightarrow> string \<Rightarrow> string" where
  "replace_each_run bad new s =
     concat (map (\<lambda>r. if bad (hd r) then new else r) (maximal_runs bad s))"

subsubsection \<open>Printing numbers\<close>

text \<open>The decimal digits of an integer that is not negative.\<close>

definition digit :: "int \<Rightarrow> char" where
  "digit d = digit_chars ! nat (d mod 10)"

function decimal :: "int \<Rightarrow> string" where
  "decimal n = (if n < 10 then [digit n] else decimal (n div 10) @ [digit (n mod 10)])"
  by pat_completeness auto
termination
  by (relation "measure nat") auto

declare decimal.simps [simp del]

subsubsection \<open>Dates\<close>

text \<open>A \<^verbatim>\<open>Date\<close> object: its time value in milliseconds, or an invalid date.\<close>

datatype jsdate = InvalidDate | Date int

text \<open>What \<^verbatim>\<open>createdAt?: Date | string | number\<close> can hold.\<close>

datatype date_like = DateObject jsdate | DateString string | DateNumber number

text \<open>
  \<^verbatim>\<open>new Date(n)\<close> for a number: the time value is \<open>n\<close> truncated towards zero, and the
  date is invalid for \<open>NaN\<close>, for the infinities and beyond 8.64e15 milliseconds.
\<close>

definition new_Date_number :: "number \<Rightarrow> jsdate" where
  "new_Date_number n =
     (case n of
        Fin x \<Rightarrow>
          if \<bar>x\<bar> > 8640000000000000 then InvalidDate
          else Date (if 0 \<le> x then \<lfloor>x\<rfloor> else \<lceil>x\<rceil>)
      | _ \<Rightarrow> InvalidDate)"

subsubsection \<open>Results of calls that can throw or reject\<close>

datatype 'a outcome = Throws | Returns 'a

datatype error = TypeError

subsubsection \<open>JSON\<close>

datatype json =
    JNull
  | JBool bool
  | JNumber number
  | JString string
  | JArray "json list"
  | JObject "(string \<times> json) list"

text \<open>
  \<^verbatim>\<open>parsed.key\<close> on a parsed JSON value other than \<^verbatim>\<open>null\<close>: an object has the
  members of its text (the last one of a repeated key); the other values have none of
  the keys read here.
\<close>

definition property :: "json \<Rightarrow> string \<Rightarrow> json option" where
  "property parsed key = (case parsed of JObject kvs \<Rightarrow> map_of (rev kvs) key | _ \<Rightarrow> None)"

subsection \<open>The data of the module\<close>

text \<open>
  \<^verbatim>\<open>InvoicePdfCompany\<close>, \<^verbatim>\<open>InvoicePdfItem\<close> and \<^verbatim>\<open>InvoicePdfClient\<close>. An optional
  property is an \<open>option\<close>. Field names that occur in several types carry the name of
  their type; \<^verbatim>\<open>id\<close> is \<open>item_id\<close>.
\<close>

record InvoicePdfCompany =
  company_name :: "string option"
  company_email :: "string option"
  phoneNumbers :: "string list option"
  addresses :: "string list option"

record InvoicePdfItem =
  item_id :: "string option"
  productId :: "string option"
  reference :: "string option"
  sku :: "string option"
  description :: "string option"
  quantity :: "number option"
  unitPrice :: "number option"
  totalPrice :: "number option"

record InvoicePdfClient =
  client_name :: "string option"
  client_email :: "string option"
  client_phone :: "string option"
  client_location :: "string option"

text \<open>
  The implementation signature is
  \<^verbatim>\<open>generateInvoicePDF(arg1: unknown, arg2?: unknown, arg3?: unknown)\<close>, and the
  arguments are read through the casts \<^verbatim>\<open>arg1 as Client\<close>, \<^verbatim>\<open>arg2 as Order\<close>,
  \<^verbatim>\<open>arg1 as InvoicePdfData\<close> and \<^verbatim>\<open>optionsCandidate as InvoicePdfOptions\<close>, which
  check nothing at run time. An object is therefore the bag of the properties the
  function can read from it, each one present or not: those of \<^verbatim>\<open>Client\<close>
  (\<open>cin\<close> to \<open>location\<close>), of \<^verbatim>\<open>Order\<close> (\<open>orderNumber\<close> to \<open>totalAmount\<close>), of
  \<^verbatim>\<open>InvoicePdfData\<close> (\<open>createdAt\<close> to \<open>totalAmount\<close> again, and \<open>invoiceNumber\<close> to
  \<open>invoice_notes\<close>, which is the property \<^verbatim>\<open>notes\<close>) and of \<^verbatim>\<open>InvoicePdfOptions\<close>
  (\<open>logoUrl\<close>, \<open>company\<close>). The items of an order are read through the same
  properties as the items of an invoice.
\<close>

record js_object =
  cin :: "string option"
  name :: "string option"
  email :: "string option"
  phone :: "string option"
  location :: "string option"
  orderNumber :: "string option"
  createdAt :: "date_like option"
  items :: "InvoicePdfItem list option"
  subtotal :: "number option"
  taxRate :: "number option"
  taxAmount :: "number option"
  totalAmount :: "number option"
  invoiceNumber :: "string option"
  issueDate :: "date_like option"
  dueDate :: "date_like option"
  status :: "string option"
  clientCIN :: "string option"
  client :: "InvoicePdfClient option"
  invoice_notes :: "string option"
  logoUrl :: "string option"
  company :: "InvoicePdfCompany option"

type_synonym Client = js_object
type_synonym Order = js_object
type_synonym InvoicePdfData = js_object
type_synonym InvoicePdfOptions = js_object

text \<open>The object \<^verbatim>\<open>{}\<close>.\<close>

definition empty_object :: js_object where
  "empty_object =
     \<lparr>cin = None, name = None, email = None, phone = None, location = None,
      orderNumber = None, createdAt = None, items = None, subtotal = None, taxRate = None,
      taxAmount = None, totalAmount = None, invoiceNumber = None, issueDate = None,
      dueDate = None, status = None, clientCIN = None, client = None, invoice_notes = None,
      logoUrl = None, company = None\<rparr>"

text \<open>
  A value of type \<^verbatim>\<open>unknown\<close>: \<^verbatim>\<open>undefined\<close>, \<^verbatim>\<open>null\<close>, a primitive (a string, a
  number, a boolean), or an object.
\<close>

datatype jsvalue = Undefined | Null | Primitive | Object js_object

text \<open>\<^verbatim>\<open>Boolean(v) && typeof v === "object"\<close>\<close>

definition truthy_object :: "jsvalue \<Rightarrow> bool" where
  "truthy_object v = (case v of Object _ \<Rightarrow> True | _ \<Rightarrow> False)"

text \<open>
  Reading properties of a value: of \<^verbatim>\<open>undefined\<close> and \<^verbatim>\<open>null\<close> it throws a
  \<^verbatim>\<open>TypeError\<close>, and a primitive has none of the properties read by this module.
\<close>

definition properties :: "jsvalue \<Rightarrow> error + js_object" where
  "properties v =
     (case v of
        Undefined \<Rightarrow> Inl TypeError
      | Null \<Rightarrow> Inl TypeError
      | Primitive \<Rightarrow> Inr empty_object
      | Object obj \<Rightarrow> Inr obj)"

subsection \<open>The environment\<close>

text \<open>The response of \<^verbatim>\<open>fetch\<close>: \<^verbatim>\<open>response.ok\<close> and the promise \<^verbatim>\<open>response.blob()\<close>.\<close>

record response =
  ok :: bool
  blob :: "string outcome"

text \<open>
  The snapshot of \<^verbatim>\<open>getDoc\<close>: the document does not exist, or it exists with its
  \<^verbatim>\<open>snap.id\<close> and the \<^verbatim>\<open>reference\<close> of its data.
\<close>

datatype snapshot = Missing | Exists string "string option"

text \<open>
  A cell of the table is a string, or, in the first column, a value that the record of
  references inherits from \<^verbatim>\<open>Object.prototype\<close>: \<open>Inherited k\<close> is the value that
  reading the property \<open>k\<close> of such a record yields when the record has no property
  \<open>k\<close> of its own, a function (for \<^verbatim>\<open>__proto__\<close>, the object \<^verbatim>\<open>Object.prototype\<close>)
  and no string.
\<close>

datatype cell = Cell string | Inherited string

text \<open>The options of \<^verbatim>\<open>autoTable\<close> that depend on the invoice.\<close>

record autotable_options =
  startY :: rat
  body :: "cell list list"

record env =
  has_window :: bool
    \<comment> \<open>\<^verbatim>\<open>typeof window !== "undefined"\<close>\<close>
  now :: int
    \<comment> \<open>the time value of \<^verbatim>\<open>new Date()\<close>\<close>
  Date_parse :: "string \<Rightarrow> jsdate"
    \<comment> \<open>\<^verbatim>\<open>new Date(s)\<close> for a string\<close>
  toLocaleDateString :: "jsdate \<Rightarrow> string"
  Number_toString :: "number \<Rightarrow> string"
    \<comment> \<open>\<^verbatim>\<open>String(n)\<close> for a number\<close>
  getItem :: "string \<Rightarrow> string option outcome"
    \<comment> \<open>\<^verbatim>\<open>window.localStorage.getItem\<close>\<close>
  JSON_parse :: "string \<Rightarrow> json outcome"
  fetch :: "string \<Rightarrow> response outcome"
  readAsDataURL :: "string \<Rightarrow> string outcome"
    \<comment> \<open>the \<^verbatim>\<open>FileReader\<close>: \<^verbatim>\<open>onerror\<close> rejects, \<^verbatim>\<open>onload\<close> resolves\<close>
  Image_load :: "string \<Rightarrow> (nat \<times> nat \<times> nat \<times> nat) outcome"
    \<comment> \<open>the \<^verbatim>\<open>Image\<close>: \<^verbatim>\<open>onerror\<close>, or \<^verbatim>\<open>onload\<close> with
        \<^verbatim>\<open>naturalWidth\<close>, \<^verbatim>\<open>width\<close>, \<^verbatim>\<open>naturalHeight\<close>, \<^verbatim>\<open>height\<close>\<close>
  import_firestore :: bool
    \<comment> \<open>\<^verbatim>\<open>await import("firebase/firestore")\<close> resolves\<close>
  getDoc :: "string \<Rightarrow> snapshot outcome"
    \<comment> \<open>\<^verbatim>\<open>getDoc(doc(db, "products", productId))\<close>\<close>
  pageWidth :: rat
  pageHeight :: rat
  splitTextToSize :: "string \<times> string \<times> rat \<Rightarrow> string \<Rightarrow> rat \<Rightarrow> string list"
    \<comment> \<open>\<^verbatim>\<open>doc.splitTextToSize(text, width)\<close> under the current font, style and size\<close>
  addImage_throws :: "string \<Rightarrow> bool"
  autoTable_finalY :: "autotable_options \<Rightarrow> rat option"
    \<comment> \<open>\<^verbatim>\<open>doc.lastAutoTable?.finalY\<close> after the table\<close>
  getNumberOfPages :: "autotable_options \<Rightarrow> nat"
    \<comment> \<open>\<^verbatim>\<open>doc.getNumberOfPages()\<close> after the table\<close>

subsection \<open>Money\<close>

text \<open>
  \<^verbatim>\<open>Number.prototype.toFixed(2)\<close>. A value that is not finite, or whose absolute value
  is \<open>10\<^sup>2\<^sup>1\<close> or more, is printed as \<^verbatim>\<open>String\<close> prints it (after the sign, for a
  negative one). Any other value is printed as its sign, then the multiple of 1/100
  nearest to its absolute value (the larger one on a tie), with two digits after the
  point.
\<close>

definition toFixed2 :: "env \<Rightarrow> number \<Rightarrow> string" where
  "toFixed2 e v =
     (case v of
        Fin x \<Rightarrow>
          if \<bar>x\<bar> < 10 ^ 21 then
            (let n = \<lfloor>\<bar>x\<bar> * 100 + 1 / 2\<rfloor>;
                 s = decimal (n div 100) @ ''.'' @ [digit (n mod 100 div 10), digit (n mod 10)]
             in if x < 0 then ''-'' @ s else s)
          else if x < 0 then ''-'' @ Number_toString e (Fin (- x))
          else Number_toString e v
      | _ \<Rightarrow> Number_toString e v)"

definition CURRENCY :: string where
  "CURRENCY = ''Dt''"

text \<open>\<^verbatim>\<open>const formatMoneyDt = (value) => `${Number(value || 0).toFixed(2)} ${CURRENCY}`\<close>\<close>

definition formatMoneyDt :: "env \<Rightarrow> number \<Rightarrow> string" where
  "formatMoneyDt e v = toFixed2 e (if truthy_number v then v else Fin 0) @ '' '' @ CURRENCY"

subsection \<open>Loaders\<close>

text \<open>
  \<^verbatim>\<open>
  const toDateSafe = (value: unknown): Date | null => {
    if (!value) return null;
    const date = value instanceof Date ? value : new Date(value as string | number | Date);
    return Number.isNaN(date.getTime()) ? null : date;
  };
  \<close>
\<close>

definition toDateSafe :: "env \<Rightarrow> date_like option \<Rightarrow> jsdate option" where
  "toDateSafe e v =
     (case v of
        None \<Rightarrow> None
      | Some d \<Rightarrow>
          (let date =
             (case d of
                DateObject t \<Rightarrow> Some t
              | DateString s \<Rightarrow> if s = [] then None else Some (Date_parse e s)
              | DateNumber n \<Rightarrow> if \<not> truthy_number n then None else Some (new_Date_number n))
           in case date of
                None \<Rightarrow> None
              | Some InvalidDate \<Rightarrow> None
              | Some (Date t) \<Rightarrow> Some (Date t)))"

text \<open>
  \<^verbatim>\<open>String(p ?? "")\<close> for an element of a parsed JSON array. \<^verbatim>\<open>String\<close> of an array
  joins the strings of its elements with commas, \<^verbatim>\<open>null\<close> elements being empty. Of an
  object it is \<^verbatim>\<open>[object Object]\<close>, unless the object has a member \<^verbatim>\<open>toString\<close>: that
  member is not a function, the inherited \<^verbatim>\<open>valueOf\<close> (or a member of that name) gives no
  primitive either, and the conversion throws a \<^verbatim>\<open>TypeError\<close>.
\<close>

fun all_returned :: "'a outcome list \<Rightarrow> 'a list outcome" where
  "all_returned [] = Returns []"
| "all_returned (Throws # rs) = Throws"
| "all_returned (Returns x # rs) =
     (case all_returned rs of Throws \<Rightarrow> Throws | Returns xs \<Rightarrow> Returns (x # xs))"

fun String_json :: "env \<Rightarrow> json \<Rightarrow> string outcome" where
  "String_json e JNull = Returns ''null''"
| "String_json e (JBool b) = Returns (if b then ''true'' else ''false'')"
| "String_json e (JNumber n) = Returns (Number_toString e n)"
| "String_json e (JString s) = Returns s"
| "String_json e (JArray xs) =
     (case all_returned (map (\<lambda>x. if x = JNull then Returns [] else String_json e x) xs) of
        Throws \<Rightarrow> Throws
      | Returns parts \<Rightarrow> Returns (join '','' parts))"
| "String_json e (JObject kvs) =
     (if ''toString'' \<in> set (map fst kvs) then Throws else Returns ''[object Object]'')"

definition String_nullish :: "env \<Rightarrow> json \<Rightarrow> string outcome" where
  "String_nullish e p = (if p = JNull then Returns [] else String_json e p)"

text \<open>
  \<^verbatim>\<open>loadCompanyProfileFromStorage\<close> (lines 68 to 99). Everything after the window test
  is inside \<^verbatim>\<open>try { ... } catch { return undefined; }\<close>: \<^verbatim>\<open>getItem\<close>,
  \<^verbatim>\<open>JSON.parse\<close> or a conversion to a string throwing, and reading a property of a
  parsed \<^verbatim>\<open>null\<close>, end there.
\<close>

definition trimmed_strings :: "env \<Rightarrow> json option \<Rightarrow> string list option outcome" where
  "trimmed_strings e v =
     (case v of
        Some (JArray xs) \<Rightarrow>
          (case all_returned (map (String_nullish e) xs) of
             Throws \<Rightarrow> Throws
           | Returns ss \<Rightarrow> Returns (Some (filter_Boolean (map trim ss))))
      | _ \<Rightarrow> Returns None)"

definition nonempty_list :: "string list option \<Rightarrow> string list option" where
  "nonempty_list xs =
     (case xs of None \<Rightarrow> None | Some l \<Rightarrow> if length l \<noteq> 0 then Some l else None)"

definition trimmed_string :: "json option \<Rightarrow> string option" where
  "trimmed_string v = (case v of Some (JString s) \<Rightarrow> Some (trim s) | _ \<Rightarrow> None)"

definition some_length :: "string list option \<Rightarrow> bool" where
  "some_length xs = (case xs of None \<Rightarrow> False | Some l \<Rightarrow> length l \<noteq> 0)"

text \<open>The object \<^verbatim>\<open>company\<close> built from the parsed value (lines 80 to 92).\<close>

definition company_of :: "env \<Rightarrow> json \<Rightarrow> InvoicePdfCompany outcome" where
  "company_of e parsed =
     (case trimmed_strings e (property parsed ''phoneNumbers'') of
        Throws \<Rightarrow> Throws
      | Returns phones \<Rightarrow>
          (case trimmed_strings e (property parsed ''addresses'') of
             Throws \<Rightarrow> Throws
           | Returns addrs \<Rightarrow>
               Returns
                 \<lparr>company_name = trimmed_string (property parsed ''name''),
                  company_email = trimmed_string (property parsed ''email''),
                  phoneNumbers = nonempty_list phones,
                  addresses = nonempty_list addrs\<rparr>))"

definition loadCompanyProfileFromStorage :: "env \<Rightarrow> InvoicePdfCompany option" where
  "loadCompanyProfileFromStorage e =
     (if \<not> has_window e then None
      else (case getItem e ''companyProfile'' of
        Throws \<Rightarrow> None
      | Returns None \<Rightarrow> None
      | Returns (Some raw) \<Rightarrow>
          if raw = [] then None
          else (case JSON_parse e raw of
            Throws \<Rightarrow> None
          | Returns JNull \<Rightarrow> None
          | Returns parsed \<Rightarrow>
              (case company_of e parsed of
                 Throws \<Rightarrow> None
               | Returns profile \<Rightarrow>
                   if \<not> truthy_string (company_name profile) \<and>
                      \<not> truthy_string (company_email profile) \<and>
                      \<not> some_length (phoneNumbers profile) \<and>
                      \<not> some_length (addresses profile)
                   then None
                   else Some profile))))"

text \<open>
  \<^verbatim>\<open>loadImageAsDataUrl\<close> (lines 101 to 119): every failure after the window test is
  caught and gives \<^verbatim>\<open>null\<close>.
\<close>

definition loadImageAsDataUrl :: "env \<Rightarrow> string \<Rightarrow> string option" where
  "loadImageAsDataUrl e url =
     (if \<not> has_window e then None
      else (case fetch e url of
        Throws \<Rightarrow> None
      | Returns r \<Rightarrow>
          if \<not> ok r then None
          else (case blob r of
            Throws \<Rightarrow> None
          | Returns b \<Rightarrow>
              (case readAsDataURL e b of
                 Throws \<Rightarrow> None
               | Returns dataUrl \<Rightarrow> Some dataUrl))))"

text \<open>
  \<^verbatim>\<open>getImageAspectRatio\<close> (lines 121 to 141). \<^verbatim>\<open>a || b || 0\<close> on the pixel sizes is
  the first one that is not zero.
\<close>

definition first_nonzero :: "nat \<Rightarrow> nat \<Rightarrow> nat" where
  "first_nonzero a b = (if a \<noteq> 0 then a else if b \<noteq> 0 then b else 0)"

definition getImageAspectRatio :: "env \<Rightarrow> string \<Rightarrow> rat option" where
  "getImageAspectRatio e dataUrl =
     (if \<not> has_window e then None
      else (case Image_load e dataUrl of
        Throws \<Rightarrow> None
      | Returns (naturalWidth, width, naturalHeight, height) \<Rightarrow>
          (let w = first_nonzero naturalWidth width;
               h = first_nonzero naturalHeight height
           in if w = 0 \<or> h = 0 then None
              else (let ratio = of_nat w / of_nat h
                    in if ratio \<le> 0 then None else Some ratio))))"

text \<open>
  \<^verbatim>\<open>loadProductReferenceMap\<close> (lines 143 to 169). The result is the record of
  references together with the list of the product identifiers for which \<^verbatim>\<open>getDoc\<close>
  was called, in the order of the calls. The inner \<^verbatim>\<open>try\<close> turns a failed lookup
  into the pair \<^verbatim>\<open>[productId, productId]\<close>; the outer one turns a failed import of the
  Firestore module into \<^verbatim>\<open>{}\<close>.
\<close>

definition lookup_entry :: "env \<Rightarrow> string \<Rightarrow> string \<times> string" where
  "lookup_entry e pid =
     (case getDoc e pid of
        Throws \<Rightarrow> (pid, pid)
      | Returns Missing \<Rightarrow> (pid, pid)
      | Returns (Exists snap_id data_reference) \<Rightarrow> (pid, nullish data_reference snap_id))"

definition loadProductReferenceMap ::
  "env \<Rightarrow> string list \<Rightarrow> string list \<times> (string \<rightharpoonup> string)" where
  "loadProductReferenceMap e productIds =
     (if \<not> has_window e then ([], Map.empty)
      else (let uniqueIds = Array_from_Set (filter_Boolean productIds)
            in if length uniqueIds = 0 then ([], Map.empty)
               else if \<not> import_firestore e then ([], Map.empty)
               else (uniqueIds, Object_fromEntries (map (lookup_entry e) uniqueIds))))"

subsection \<open>The jsPDF document\<close>

text \<open>
  The document is the state of the \<^verbatim>\<open>jsPDF\<close> object as far as this module depends on
  it: the current font, style and size (which decide how \<^verbatim>\<open>splitTextToSize\<close> wraps)
  and the calls made on the document so far, in order. The constant options of
  \<^verbatim>\<open>autoTable\<close> (head, styles, column widths, margins) are the same in every call
  and are not recorded.
\<close>

datatype call =
    SetFillColor "nat \<times> nat \<times> nat"
  | SetDrawColor "nat \<times> nat \<times> nat"
  | SetTextColor "nat \<times> nat \<times> nat"
  | SetLineWidth rat
  | SetFont string string
  | SetFontSize rat
  | Rect rat rat rat rat string
  | RoundedRect rat rat rat rat rat rat
  | AddImage string string rat rat rat rat
  | Text string rat rat "string option"
  | Line rat rat rat rat
  | AutoTable autotable_options
  | SetPage nat
  | Save string

record jsPDF =
  font :: string
  fontStyle :: string
  fontSize :: rat
  calls :: "call list"

text \<open>\<^verbatim>\<open>new jsPDF({ unit: "mm", format: "a4" })\<close>\<close>

definition new_jsPDF :: jsPDF where
  "new_jsPDF = \<lparr>font = ''helvetica'', fontStyle = ''normal'', fontSize = 16, calls = []\<rparr>"

definition record_call :: "call \<Rightarrow> jsPDF \<Rightarrow> jsPDF" where
  "record_call c doc = doc\<lparr>calls := calls doc @ [c]\<rparr>"

definition setFillColor :: "nat \<times> nat \<times> nat \<Rightarrow> jsPDF \<Rightarrow> jsPDF" where
  "setFillColor c doc = record_call (SetFillColor c) doc"

definition setDrawColor :: "nat \<times> nat \<times> nat \<Rightarrow> jsPDF \<Rightarrow> jsPDF" where
  "setDrawColor c doc = record_call (SetDrawColor c) doc"

definition setTextColor :: "nat \<times> nat \<times> nat \<Rightarrow> jsPDF \<Rightarrow> jsPDF" where
  "setTextColor c doc = record_call (SetTextColor c) doc"

definition setLineWidth :: "rat \<Rightarrow> jsPDF \<Rightarrow> jsPDF" where
  "setLineWidth lw doc = record_call (SetLineWidth lw) doc"

definition setFont :: "string \<Rightarrow> string \<Rightarrow> jsPDF \<Rightarrow> jsPDF" where
  "setFont f st doc = record_call (SetFont f st) (doc\<lparr>font := f, fontStyle := st\<rparr>)"

definition setFontSize :: "rat \<Rightarrow> jsPDF \<Rightarrow> jsPDF" where
  "setFontSize sz doc = record_call (SetFontSize sz) (doc\<lparr>fontSize := sz\<rparr>)"

definition rect :: "rat \<Rightarrow> rat \<Rightarrow> rat \<Rightarrow> rat \<Rightarrow> string \<Rightarrow> jsPDF \<Rightarrow> jsPDF" where
  "rect x y w h style doc = record_call (Rect x y w h style) doc"

definition roundedRect :: "rat \<Rightarrow> rat \<Rightarrow> rat \<Rightarrow> rat \<Rightarrow> rat \<Rightarrow> rat \<Rightarrow> jsPDF \<Rightarrow> jsPDF" where
  "roundedRect x y w h rx ry doc = record_call (RoundedRect x y w h rx ry) doc"

definition addImage :: "string \<Rightarrow> string \<Rightarrow> rat \<Rightarrow> rat \<Rightarrow> rat \<Rightarrow> rat \<Rightarrow> jsPDF \<Rightarrow> jsPDF" where
  "addImage img fmt x y w h doc = record_call (AddImage img fmt x y w h) doc"

definition text_at :: "string \<Rightarrow> rat \<Rightarrow> rat \<Rightarrow> string option \<Rightarrow> jsPDF \<Rightarrow> jsPDF" where
  "text_at s x y align doc = record_call (Text s x y align) doc"

definition line :: "rat \<Rightarrow> rat \<Rightarrow> rat \<Rightarrow> rat \<Rightarrow> jsPDF \<Rightarrow> jsPDF" where
  "line x1 y1 x2 y2 doc = record_call (Line x1 y1 x2 y2) doc"

definition autoTable :: "autotable_options \<Rightarrow> jsPDF \<Rightarrow> jsPDF" where
  "autoTable opts doc = record_call (AutoTable opts) doc"

definition setPage :: "nat \<Rightarrow> jsPDF \<Rightarrow> jsPDF" where
  "setPage p doc = record_call (SetPage p) doc"

definition save :: "string \<Rightarrow> jsPDF \<Rightarrow> jsPDF" where
  "save file doc = record_call (Save file) doc"

text \<open>\<^verbatim>\<open>doc.splitTextToSize(text, width)\<close> on the document in its current state.\<close>

definition doc_splitTextToSize :: "env \<Rightarrow> jsPDF \<Rightarrow> string \<Rightarrow> rat \<Rightarrow> string list" where
  "doc_splitTextToSize e doc s width =
     splitTextToSize e (font doc, fontStyle doc, fontSize doc) s width"

subsection \<open>Constants\<close>

definition DEFAULT_LOGO_URL :: string where
  "DEFAULT_LOGO_URL = ''/company/company_logo.png''"

definition BRAND_GRAY :: "nat \<times> nat \<times> nat" where
  "BRAND_GRAY = (75, 85, 99)"

definition BRAND_GRAY_DARK :: "nat \<times> nat \<times> nat" where
  "BRAND_GRAY_DARK = (31, 41, 55)"

definition BORDER_GRAY :: "nat \<times> nat \<times> nat" where
  "BORDER_GRAY = (220, 220, 220)"

definition BG_SOFT :: "nat \<times> nat \<times> nat" where
  "BG_SOFT = (245, 247, 250)"

definition TEXT_MUTED :: "nat \<times> nat \<times> nat" where
  "TEXT_MUTED = (107, 114, 128)"

text \<open>Local constants of \<^verbatim>\<open>generateInvoicePDF\<close> that several parts of it use.\<close>

definition marginX :: rat where
  "marginX = 20"

definition headerBandH :: rat where
  "headerBandH = 26"

definition contentTop :: rat where
  "contentTop = headerBandH + 10"

subsection \<open>The section box (lines 171 to 225)\<close>

record KeyValueRow =
  row_label :: string
  row_value :: string

record DrawSectionBoxParams =
  box_x :: rat
  box_y :: rat
  box_w :: rat
  box_title :: string
  box_rows :: "KeyValueRow list"

text \<open>
  The body of \<^verbatim>\<open>wrappedValues.forEach((r) => { ... })\<close>: the label, the lines of the
  value one under the other, and the cursor moved down by
  \<^verbatim>\<open>(r.valueLines?.length ?? 1) * rowGap\<close>.
\<close>

definition drawSectionBox_row ::
  "rat \<Rightarrow> rat \<Rightarrow> rat \<Rightarrow> rat \<Rightarrow> string \<times> string list \<Rightarrow> rat \<times> jsPDF \<Rightarrow> rat \<times> jsPDF" where
  "drawSectionBox_row x padX labelW rowGap r st =
     (let cursorY = fst st;
          doc = snd st;
          doc = setFont ''helvetica'' ''bold'' doc;
          doc = setFontSize 8.8 doc;
          doc = setTextColor TEXT_MUTED doc;
          doc = text_at (fst r) (x + padX) cursorY None doc;
          doc = setFont ''times'' ''normal'' doc;
          doc = setFontSize 9.2 doc;
          doc = setTextColor (20, 20, 20) doc;
          doc = fold (\<lambda>(idx, ln). text_at ln (x + padX + labelW) (cursorY + of_nat idx * rowGap) None)
                  (enumerate 0 (snd r)) doc
      in (cursorY + of_nat (length (snd r)) * rowGap, doc))"

text \<open>\<^verbatim>\<open>r.valueLines.length || 1\<close>\<close>

definition line_count :: "string list \<Rightarrow> nat" where
  "line_count valueLines = (if length valueLines \<noteq> 0 then length valueLines else 1)"

text \<open>
  The wrapped rows and the height of the box (lines 185 to 192), which depend on the
  font of the document when \<^verbatim>\<open>drawSectionBox\<close> is entered.
\<close>

definition wrappedValues :: "env \<Rightarrow> jsPDF \<Rightarrow> DrawSectionBoxParams \<Rightarrow> (string \<times> string list) list" where
  "wrappedValues e doc0 params =
     (let padX = 4; labelW = 24;
          valueW = box_w params - padX * 2 - labelW
      in map (\<lambda>r. (row_label r,
                     doc_splitTextToSize e doc0 (or_else (trim (row_value r)) ''-'') valueW))
           (box_rows params))"

definition sectionBox_height :: "env \<Rightarrow> jsPDF \<Rightarrow> DrawSectionBoxParams \<Rightarrow> rat" where
  "sectionBox_height e doc0 params =
     (let padY = 4; headerH = 9; rowGap = 4.8;
          contentLines = foldl (\<lambda>sum r. sum + line_count (snd r)) 0 (wrappedValues e doc0 params);
          h = padY + headerH + padY + of_nat contentLines * rowGap + padY
      in h)"

definition drawSectionBox :: "env \<Rightarrow> jsPDF \<Rightarrow> DrawSectionBoxParams \<Rightarrow> jsPDF \<times> rat" where
  "drawSectionBox e doc0 params =
     (let x = box_x params; y = box_y params; w = box_w params;
          title = box_title params;
          padX = 4; padY = 4; headerH = 9; rowGap = 4.8; labelW = 24;
          h = sectionBox_height e doc0 params;
          doc = setDrawColor BORDER_GRAY doc0;
          doc = setLineWidth 0.2 doc;
          doc = roundedRect x y w h 2 2 doc;
          doc = setFillColor BG_SOFT doc;
          doc = rect x y w headerH ''F'' doc;
          doc = setFont ''helvetica'' ''bold'' doc;
          doc = setFontSize 10 doc;
          doc = setTextColor (40, 40, 40) doc;
          doc = text_at title (x + padX) (y + 6.3) None doc;
          cursorY = y + headerH + padY + 2;
          doc = snd (fold (drawSectionBox_row x padX labelW rowGap)
                      (wrappedValues e doc0 params) (cursorY, doc));
          doc = setTextColor (0, 0, 0) doc
      in (doc, h))"

subsection \<open>The parts of \<^verbatim>\<open>generateInvoicePDF\<close>\<close>

text \<open>Header band (lines 284 to 289).\<close>

definition drawHeaderBand :: "env \<Rightarrow> jsPDF \<Rightarrow> jsPDF" where
  "drawHeaderBand e doc0 =
     (let headerTop = 0;
          doc = setFillColor BRAND_GRAY_DARK doc0;
          doc = rect 0 headerTop (pageWidth e) headerBandH ''F'' doc
      in doc)"

text \<open>
  The logo (lines 291 to 314). \<^verbatim>\<open>if (logoDataUrl)\<close> is false for \<^verbatim>\<open>null\<close> and for the
  empty string; a failure of \<^verbatim>\<open>addImage\<close> is caught and ignored.
\<close>

definition drawLogo :: "env \<Rightarrow> string option \<Rightarrow> jsPDF \<Rightarrow> jsPDF" where
  "drawLogo e logoDataUrl doc =
     (if truthy_string logoDataUrl then
        (let dataUrl = the logoDataUrl;
             logoMaxH = 20;
             logoMaxW = 34;
             aspectRatio = getImageAspectRatio e dataUrl;
             (logoW, logoH) =
               (case aspectRatio of
                  None \<Rightarrow> (logoMaxH, logoMaxH)
                | Some r \<Rightarrow>
                    if logoMaxH * r > logoMaxW then (logoMaxW, logoMaxW / r)
                    else (logoMaxH * r, logoMaxH))
         in if addImage_throws e dataUrl then doc
            else addImage dataUrl ''PNG'' (pageWidth e - marginX - logoW) 5 logoW logoH doc)
      else doc)"

text \<open>
  \<^verbatim>\<open>(lines as string[]).slice(0, 2).forEach((line) => { doc.text(...); y += lineGap; })\<close>
\<close>

definition drawLines :: "rat \<Rightarrow> rat \<Rightarrow> string list \<Rightarrow> rat \<times> jsPDF \<Rightarrow> rat \<times> jsPDF" where
  "drawLines textX lineGap lns st =
     fold (\<lambda>ln (y, doc). (y + lineGap, text_at ln textX y (Some ''left'') doc)) (take 2 lns) st"

text \<open>The guard of the company block (line 317).\<close>

definition company_guard :: "InvoicePdfCompany option \<Rightarrow> bool" where
  "company_guard c =
     (case c of
        None \<Rightarrow> False
      | Some profile \<Rightarrow>
          truthy_string (company_name profile) \<or> truthy_string (company_email profile) \<or>
          length (nullish (phoneNumbers profile) []) > 0 \<or>
          length (nullish (addresses profile) []) > 0)"

text \<open>
  Company block (lines 316 to 371). The four \<^verbatim>\<open>if\<close> statements of the block work on
  the variables \<^verbatim>\<open>y\<close> and \<^verbatim>\<open>doc\<close>, here a pair; each one wraps a text to \<^verbatim>\<open>maxW\<close>
  under the current font and draws its first two lines. The separator of the addresses
  is a middle dot between two spaces, here in UTF-8.
\<close>

definition drawWrapped :: "env \<Rightarrow> rat \<Rightarrow> rat \<Rightarrow> rat \<Rightarrow> string \<Rightarrow> rat \<times> jsPDF \<Rightarrow> rat \<times> jsPDF" where
  "drawWrapped e textX maxW lineGap s st =
     drawLines textX lineGap (doc_splitTextToSize e (snd st) s maxW) st"

definition drawCompanyName ::
  "env \<Rightarrow> rat \<Rightarrow> rat \<Rightarrow> rat \<Rightarrow> InvoicePdfCompany \<Rightarrow> rat \<times> jsPDF \<Rightarrow> rat \<times> jsPDF" where
  "drawCompanyName e textX maxW lineGap profile st =
     (if truthy_string (company_name profile) then
        (let doc = setFont ''helvetica'' ''bold'' (snd st);
             doc = setFontSize 9.6 doc
         in drawWrapped e textX maxW lineGap (trim (the (company_name profile))) (fst st, doc))
      else st)"

definition drawCompanyEmail ::
  "env \<Rightarrow> rat \<Rightarrow> rat \<Rightarrow> rat \<Rightarrow> InvoicePdfCompany \<Rightarrow> rat \<times> jsPDF \<Rightarrow> rat \<times> jsPDF" where
  "drawCompanyEmail e textX maxW lineGap profile st =
     (if truthy_string (company_email profile) then
        drawWrapped e textX maxW lineGap (trim (the (company_email profile))) st
      else st)"

definition drawCompanyPhones ::
  "env \<Rightarrow> rat \<Rightarrow> rat \<Rightarrow> rat \<Rightarrow> string list \<Rightarrow> rat \<times> jsPDF \<Rightarrow> rat \<times> jsPDF" where
  "drawCompanyPhones e textX maxW lineGap phones st =
     (if length phones \<noteq> 0 then
        (let phoneLine = join '' / '' phones
         in drawWrapped e textX maxW lineGap phoneLine st)
      else st)"

definition drawCompanyAddresses ::
  "env \<Rightarrow> rat \<Rightarrow> rat \<Rightarrow> rat \<Rightarrow> string list \<Rightarrow> rat \<times> jsPDF \<Rightarrow> rat \<times> jsPDF" where
  "drawCompanyAddresses e textX maxW lineGap addrs st =
     (if length addrs \<noteq> 0 then
        (let addrLine = join [CHR '' '', CHR 0xC2, CHR 0xB7, CHR '' ''] addrs
         in drawWrapped e textX maxW lineGap addrLine st)
      else st)"

definition drawCompanyBlock :: "env \<Rightarrow> InvoicePdfCompany option \<Rightarrow> jsPDF \<Rightarrow> jsPDF" where
  "drawCompanyBlock e c doc0 =
     (if company_guard c then
        (let profile = the c;
             centerGap = 12;
             maxLeftHalfW = pageWidth e / 2 - marginX - centerGap;
             blockW = max 40 (min 70 maxLeftHalfW);
             textX = marginX;
             maxW = blockW;
             lineGap = 4.2;
             y = 8;
             phones = filter_Boolean (map trim (nullish (phoneNumbers profile) []));
             addrs = filter_Boolean (map trim (nullish (addresses profile) []));
             doc = setTextColor (255, 255, 255) doc0;
             (y, doc) = drawCompanyName e textX maxW lineGap profile (y, doc);
             doc = setFont ''helvetica'' ''normal'' doc;
             doc = setFontSize 8.2 doc;
             (y, doc) = drawCompanyEmail e textX maxW lineGap profile (y, doc);
             (y, doc) = drawCompanyPhones e textX maxW lineGap phones (y, doc);
             (y, doc) = drawCompanyAddresses e textX maxW lineGap addrs (y, doc);
             doc = setTextColor (0, 0, 0) doc
         in doc)
      else doc0)"

text \<open>The title (lines 373 to 380).\<close>

definition drawTitle :: "env \<Rightarrow> jsPDF \<Rightarrow> jsPDF" where
  "drawTitle e doc0 =
     (let doc = setFont ''helvetica'' ''bold'' doc0;
          doc = setFontSize 20 doc;
          doc = setTextColor (255, 255, 255) doc;
          doc = text_at ''INVOICE'' (pageWidth e / 2) 16 (Some ''center'') doc;
          doc = setTextColor (0, 0, 0) doc;
          doc = setFont ''times'' ''normal'' doc;
          doc = setFontSize 10 doc
      in doc)"

text \<open>
  \<^verbatim>\<open>const issueDate = toDateSafe(invoice.issueDate) ?? toDateSafe(invoice.createdAt) ?? new Date();\<close>
\<close>

definition issue_date :: "env \<Rightarrow> InvoicePdfData \<Rightarrow> jsdate" where
  "issue_date e invoice =
     (case toDateSafe e (issueDate invoice) of
        Some d \<Rightarrow> d
      | None \<Rightarrow> (case toDateSafe e (createdAt invoice) of Some d \<Rightarrow> d | None \<Rightarrow> Date (now e)))"

text \<open>\<^verbatim>\<open>...(v ? [{ label: l, value: v }] : [])\<close> for an optional string.\<close>

definition optional_row :: "string \<Rightarrow> string option \<Rightarrow> KeyValueRow list" where
  "optional_row l v =
     (if truthy_string v then [\<lparr>row_label = l, row_value = the v\<rparr>] else [])"

text \<open>\<^verbatim>\<open>leftRows\<close> (lines 394 to 399).\<close>

definition leftRows :: "env \<Rightarrow> InvoicePdfData \<Rightarrow> KeyValueRow list" where
  "leftRows e invoice =
     (let issueDate = issue_date e invoice;
          dueDate = toDateSafe e (dueDate invoice);
          invoiceNumber = nullish (invoiceNumber invoice) [];
          status = nullish (status invoice) []
      in [\<lparr>row_label = ''Invoice :'', row_value = or_else invoiceNumber ''-''\<rparr>,
          \<lparr>row_label = ''Issue :'', row_value = toLocaleDateString e issueDate\<rparr>]
         @ (case dueDate of
              None \<Rightarrow> []
            | Some d \<Rightarrow> [\<lparr>row_label = ''Due :'', row_value = toLocaleDateString e d\<rparr>])
         @ (if status \<noteq> [] then [\<lparr>row_label = ''Status :'', row_value = status\<rparr>] else []))"

text \<open>\<^verbatim>\<open>rightRows\<close> (lines 401 to 407); \<^verbatim>\<open>invoice.client?.name\<close> and its like.\<close>

definition client_property ::
  "InvoicePdfData \<Rightarrow> (InvoicePdfClient \<Rightarrow> string option) \<Rightarrow> string option" where
  "client_property invoice f = (case client invoice of None \<Rightarrow> None | Some c \<Rightarrow> f c)"

definition rightRows :: "InvoicePdfData \<Rightarrow> KeyValueRow list" where
  "rightRows invoice =
     [\<lparr>row_label = ''Name :'', row_value = nullish (client_property invoice client_name) ''-''\<rparr>]
     @ optional_row ''CIN :'' (clientCIN invoice)
     @ optional_row ''Email :'' (client_property invoice client_email)
     @ optional_row ''Phone :'' (client_property invoice client_phone)
     @ optional_row ''Addr :'' (client_property invoice client_location)"

text \<open>\<^verbatim>\<open>a ?? b\<close> where \<open>b\<close> can be undefined too.\<close>

definition nullish_opt :: "'a option \<Rightarrow> 'a option \<Rightarrow> 'a option" where
  "nullish_opt a b = (case a of None \<Rightarrow> b | Some x \<Rightarrow> Some x)"

text \<open>
  \<^verbatim>\<open>String(item.reference ?? "").trim()\<close> and
  \<^verbatim>\<open>String(item.productId ?? item.id ?? "").trim()\<close>
\<close>

definition inlineReference :: "InvoicePdfItem \<Rightarrow> string" where
  "inlineReference item = trim (nullish (reference item) [])"

definition product_id :: "InvoicePdfItem \<Rightarrow> string" where
  "product_id item = trim (nullish (nullish_opt (productId item) (item_id item)) [])"

text \<open>\<^verbatim>\<open>unresolvedProductIds\<close> (lines 416 to 419).\<close>

definition unresolvedProductIds :: "InvoicePdfItem list \<Rightarrow> string list" where
  "unresolvedProductIds its =
     filter_Boolean (map product_id (filter (\<lambda>item. inlineReference item = []) its))"

text \<open>
  \<^verbatim>\<open>productReferenceMap[productId]\<close>. The record is \<^verbatim>\<open>{}\<close> or the result of
  \<^verbatim>\<open>Object.fromEntries\<close>, so it is a finite map of its own properties, all strings, on
  top of \<^verbatim>\<open>Object.prototype\<close>: a key that is no own property but the name of a
  property of \<^verbatim>\<open>Object.prototype\<close> reads the inherited value, and any other key reads
  \<^verbatim>\<open>undefined\<close>.
\<close>

definition Object_prototype :: "string list" where
  "Object_prototype =
     [''constructor'', ''__proto__'', ''hasOwnProperty'', ''isPrototypeOf'',
      ''propertyIsEnumerable'', ''toLocaleString'', ''toString'', ''valueOf'',
      ''__defineGetter__'', ''__defineSetter__'', ''__lookupGetter__'', ''__lookupSetter__'']"

definition get_property :: "(string \<rightharpoonup> string) \<Rightarrow> string \<Rightarrow> cell option" where
  "get_property record_object key =
     (case record_object key of
        Some v \<Rightarrow> Some (Cell v)
      | None \<Rightarrow> if key \<in> set Object_prototype then Some (Inherited key) else None)"

text \<open>
  \<^verbatim>\<open>inlineReference || resolvedReference || (productId ? productId : "-")\<close>: the empty
  string and \<^verbatim>\<open>undefined\<close> are false, an inherited function or object is true.
\<close>

definition first_truthy :: "string \<Rightarrow> cell option \<Rightarrow> string \<Rightarrow> cell" where
  "first_truthy a b c =
     (if a \<noteq> [] then Cell a
      else (case b of
              Some (Cell r) \<Rightarrow> if r \<noteq> [] then Cell r else Cell c
            | Some (Inherited k) \<Rightarrow> Inherited k
            | None \<Rightarrow> Cell c))"

text \<open>One row of the table (the function mapped over the items, lines 422 to 437).\<close>

definition table_row :: "env \<Rightarrow> (string \<rightharpoonup> string) \<Rightarrow> InvoicePdfItem \<Rightarrow> cell list" where
  "table_row e productReferenceMap item =
     (let inlineRef = inlineReference item;
          pid = product_id item;
          resolvedReference =
            (if pid \<noteq> [] then get_property productReferenceMap pid else Some (Cell []));
          ref = first_truthy inlineRef resolvedReference (if pid \<noteq> [] then pid else ''-'');
          qty = nullish (quantity item) (Fin 0);
          unit = nullish (unitPrice item) (Fin 0);
          total = nullish (totalPrice item) (mul qty unit)
      in [ref,
          Cell (or_else (trim (nullish (description item) [])) ''-''),
          Cell (Number_toString e qty),
          Cell (formatMoneyDt e unit),
          Cell (formatMoneyDt e total)])"

text \<open>Totals area (lines 474 to 521).\<close>

definition drawTotals :: "env \<Rightarrow> InvoicePdfData \<Rightarrow> rat \<Rightarrow> jsPDF \<Rightarrow> jsPDF" where
  "drawTotals e invoice afterTableY doc0 =
     (let totalsY = afterTableY + 10;
          boxWidth = 70;
          boxX = pageWidth e - marginX - boxWidth;
          doc = setFontSize 9.6 doc0;
          doc = setFont ''times'' ''normal'' doc;
          subtotal = nullish (subtotal invoice) (Fin 0);
          taxAmount = nullish (taxAmount invoice) (Fin 0);
          totalAmount = nullish (totalAmount invoice) (Fin 0);
          labelX = boxX + 4;
          valueX = boxX + boxWidth - 4;
          rowY = totalsY + 6.6;
          doc = setFont ''helvetica'' ''bold'' doc;
          doc = setTextColor (55, 65, 81) doc;
          doc = text_at ''Subtotal :'' labelX rowY None doc;
          doc = setFont ''times'' ''normal'' doc;
          doc = setTextColor (17, 24, 39) doc;
          doc = text_at (formatMoneyDt e subtotal) valueX rowY (Some ''right'') doc;
          rowY = rowY + 6;
          doc = setFont ''helvetica'' ''bold'' doc;
          doc = setTextColor (55, 65, 81) doc;
          doc = text_at ''Tax :'' labelX rowY None doc;
          doc = setFont ''times'' ''normal'' doc;
          doc = setTextColor (17, 24, 39) doc;
          doc = text_at (formatMoneyDt e taxAmount) valueX rowY (Some ''right'') doc;
          rowY = rowY + 6;
          doc = setDrawColor BRAND_GRAY doc;
          doc = setLineWidth 0.35 doc;
          doc = line boxX (rowY - 3.4) (boxX + boxWidth) (rowY - 3.4) doc;
          doc = setFont ''helvetica'' ''bold'' doc;
          doc = setTextColor (17, 24, 39) doc;
          doc = setFontSize 10.8 doc;
          doc = text_at ''Total :'' labelX rowY None doc;
          doc = text_at (formatMoneyDt e totalAmount) valueX rowY (Some ''right'') doc;
          doc = setFont ''times'' ''normal'' doc;
          doc = setTextColor (0, 0, 0) doc;
          doc = setFontSize 9.6 doc
      in doc)"

text \<open>Footer (lines 525 to 537): the body of the loop, and the loop over all pages.\<close>

definition drawFooter :: "env \<Rightarrow> nat \<Rightarrow> jsPDF \<Rightarrow> jsPDF" where
  "drawFooter e page doc0 =
     (let footerY = pageHeight e - 10;
          doc = setPage page doc0;
          doc = setDrawColor BORDER_GRAY doc;
          doc = setLineWidth 0.2 doc;
          doc = line marginX (footerY - 6) (pageWidth e - marginX) (footerY - 6) doc;
          doc = setFontSize 8 doc;
          doc = setFont ''times'' ''normal'' doc;
          doc = setTextColor TEXT_MUTED doc;
          doc = text_at ''Thank you for your business!'' (pageWidth e / 2) footerY (Some ''center'') doc
      in doc)"

definition drawFooters :: "env \<Rightarrow> nat \<Rightarrow> jsPDF \<Rightarrow> jsPDF" where
  "drawFooters e totalPages doc = fold (drawFooter e) [1..<Suc totalPages] doc"

text \<open>
  \<^verbatim>\<open>const safeFile = (invoiceNumber || "invoice").replace(/[^a-z0-9-_]+/gi, "-").toLowerCase();\<close>
\<close>

definition safeFile :: "string \<Rightarrow> string" where
  "safeFile number_text =
     toLowerCase (replace_runs (\<lambda>c. \<not> safe_char c) ''-'' (or_else number_text ''invoice''))"


text \<open>The parameters of the two boxes (lines 387 to 410).\<close>

definition halfWidth :: "env \<Rightarrow> rat" where
  "halfWidth e = (let boxGap = 8 in (pageWidth e - marginX * 2 - boxGap) / 2)"

definition leftBoxParams :: "env \<Rightarrow> InvoicePdfData \<Rightarrow> DrawSectionBoxParams" where
  "leftBoxParams e invoice =
     (let leftBoxX = marginX
      in \<lparr>box_x = leftBoxX, box_y = contentTop, box_w = halfWidth e,
          box_title = ''Invoice Details'', box_rows = leftRows e invoice\<rparr>)"

definition rightBoxParams :: "env \<Rightarrow> InvoicePdfData \<Rightarrow> DrawSectionBoxParams" where
  "rightBoxParams e invoice =
     (let boxGap = 8; rightBoxX = marginX + halfWidth e + boxGap
      in \<lparr>box_x = rightBoxX, box_y = contentTop, box_w = halfWidth e,
          box_title = ''Bill To'', box_rows = rightRows invoice\<rparr>)"

text \<open>
  Everything from line 382 to the end: the two boxes, the table, the totals, the
  footers and the saved file, on the document as the header left it. The result is
  the document together with the product identifiers that were looked up.
\<close>

record rendering =
  document :: jsPDF
  getDoc_calls :: "string list"

definition renderBody :: "env \<Rightarrow> jsPDF \<Rightarrow> InvoicePdfData \<Rightarrow> rendering" where
  "renderBody e doc0 invoice =
     (let invoiceNumber = nullish (invoiceNumber invoice) [];
          (doc, leftBox) = drawSectionBox e doc0 (leftBoxParams e invoice);
          (doc, rightBox) = drawSectionBox e doc (rightBoxParams e invoice);
          boxHeight = max leftBox rightBox;
          tableStartY = contentTop + boxHeight + 12;
          (looked_up, productReferenceMap) =
            loadProductReferenceMap e (unresolvedProductIds (nullish (items invoice) []));
          rows = map (table_row e productReferenceMap) (nullish (items invoice) []);
          table = \<lparr>startY = tableStartY, body = rows\<rparr>;
          doc = autoTable table doc;
          afterTableY = nullish (autoTable_finalY e table) tableStartY;
          doc = drawTotals e invoice afterTableY doc;
          totalPages = getNumberOfPages e table;
          doc = drawFooters e totalPages doc;
          doc = save (safeFile invoiceNumber @ ''.pdf'') doc
      in \<lparr>document = doc, getDoc_calls = looked_up\<rparr>)"

text \<open>
  Lines 268 to 380: the logo is fetched, the company is the one of the options or
  else the stored one, and the header is drawn on a new document.
\<close>

definition option_logoUrl :: "InvoicePdfOptions option \<Rightarrow> string" where
  "option_logoUrl options =
     nullish (case options of None \<Rightarrow> None | Some ob \<Rightarrow> logoUrl ob) DEFAULT_LOGO_URL"

definition option_company :: "env \<Rightarrow> InvoicePdfOptions option \<Rightarrow> InvoicePdfCompany option" where
  "option_company e options =
     nullish_opt (case options of None \<Rightarrow> None | Some ob \<Rightarrow> company ob)
       (loadCompanyProfileFromStorage e)"

definition drawHeader :: "env \<Rightarrow> InvoicePdfOptions option \<Rightarrow> jsPDF" where
  "drawHeader e options =
     (let doc = new_jsPDF;
          logoUrl = option_logoUrl options;
          logoDataUrl = loadImageAsDataUrl e logoUrl;
          company = option_company e options;
          doc = drawHeaderBand e doc;
          doc = drawLogo e logoDataUrl doc;
          doc = drawCompanyBlock e company doc;
          doc = drawTitle e doc
      in doc)"

text \<open>
  The first read of a property of the invoice, at line 382, throws a \<^verbatim>\<open>TypeError\<close>
  when the invoice is \<^verbatim>\<open>undefined\<close> or \<^verbatim>\<open>null\<close>: nothing has been saved then.
\<close>

definition render :: "env \<Rightarrow> InvoicePdfOptions option \<Rightarrow> jsvalue \<Rightarrow> error + rendering" where
  "render e options invoice =
     (let doc = drawHeader e options
      in case properties invoice of
           Inl err \<Rightarrow> Inl err
         | Inr invoice_object \<Rightarrow> Inr (renderBody e doc invoice_object))"

text \<open>The normalisation of the \<^verbatim>\<open>(client, order)\<close> pair (lines 238 to 265).\<close>

definition normalize_item :: "InvoicePdfItem \<Rightarrow> InvoicePdfItem" where
  "normalize_item item =
     \<lparr>item_id = item_id item,
      productId = productId item,
      reference = None,
      sku = None,
      description = description item,
      quantity = Some (nullish (quantity item) (Fin 0)),
      unitPrice = Some (nullish (unitPrice item) (Fin 0)),
      totalPrice = Some (nullish (totalPrice item) (Fin 0))\<rparr>"

definition normalize :: "Client \<Rightarrow> Order \<Rightarrow> InvoicePdfData" where
  "normalize c order =
     empty_object
       \<lparr>invoiceNumber := orderNumber order,
        createdAt := createdAt order,
        clientCIN := cin c,
        client := Some \<lparr>client_name = name c, client_email = email c,
                        client_phone = phone c, client_location = location c\<rparr>,
        items := Some (map normalize_item (nullish (items order) [])),
        subtotal := subtotal order,
        taxRate := taxRate order,
        taxAmount := taxAmount order,
        totalAmount := Some (nullish (totalAmount order) (Fin 0)),
        invoice_notes := None\<rparr>"

text \<open>
  \<^verbatim>\<open>
  const isClientOrderCall = Boolean(arg2) && typeof arg2 === "object";
  const optionsCandidate = isClientOrderCall ? arg3 : arg2;
  const options = optionsCandidate && typeof optionsCandidate === "object"
      ? (optionsCandidate as InvoicePdfOptions) : undefined;
  \<close>
\<close>

definition isClientOrderCall :: "jsvalue \<Rightarrow> bool" where
  "isClientOrderCall arg2 = truthy_object arg2"

definition call_options :: "jsvalue \<Rightarrow> jsvalue \<Rightarrow> InvoicePdfOptions option" where
  "call_options arg2 arg3 =
     (let optionsCandidate = (if isClientOrderCall arg2 then arg3 else arg2)
      in case optionsCandidate of Object ob \<Rightarrow> Some ob | _ \<Rightarrow> None)"

text \<open>
  The invoice of a call (lines 237 to 266): the normalised pair, where reading a
  property of an \<^verbatim>\<open>undefined\<close> or \<^verbatim>\<open>null\<close> client throws, or the first argument as
  it is.
\<close>

definition call_invoice :: "jsvalue \<Rightarrow> jsvalue \<Rightarrow> error + jsvalue" where
  "call_invoice arg1 arg2 =
     (if isClientOrderCall arg2 then
        (case properties arg1 of
           Inl err \<Rightarrow> Inl err
         | Inr c \<Rightarrow>
             (case properties arg2 of
                Inl err \<Rightarrow> Inl err
              | Inr order \<Rightarrow> Inr (Object (normalize c order))))
      else Inr arg1)"

text \<open>
  \<^verbatim>\<open>generateInvoicePDF\<close>. Without a window it returns at once (\<open>None\<close>: no document);
  otherwise it returns after \<^verbatim>\<open>doc.save\<close>, or throws.
\<close>

definition generateInvoicePDF ::
  "env \<Rightarrow> jsvalue \<Rightarrow> jsvalue \<Rightarrow> jsvalue \<Rightarrow> error + rendering option" where
  "generateInvoicePDF e arg1 arg2 arg3 =
     (if \<not> has_window e then Inr None
      else (let options = call_options arg2 arg3
            in case call_invoice arg1 arg2 of
                 Inl err \<Rightarrow> Inl err
               | Inr invoice \<Rightarrow>
                   (case render e options invoice of
                      Inl err \<Rightarrow> Inl err
                    | Inr out \<Rightarrow> Inr (Some out))))"


subsection \<open>Reading a call and a document\<close>

text \<open>The invoice whose properties a call renders, when reading them does not throw.\<close>

definition invoice_of_call :: "jsvalue \<Rightarrow> jsvalue \<Rightarrow> error + InvoicePdfData" where
  "invoice_of_call arg1 arg2 =
     (case call_invoice arg1 arg2 of Inl err \<Rightarrow> Inl err | Inr v \<Rightarrow> properties v)"

text \<open>
  The calls of a document that put an image, the table or a file: the options of the
  \<^verbatim>\<open>autoTable\<close> calls, the images of the \<^verbatim>\<open>addImage\<close> calls and the names of the
  \<^verbatim>\<open>save\<close> calls, in order.
\<close>

definition principal :: "call \<Rightarrow> bool" where
  "principal c =
     (case c of AddImage _ _ _ _ _ _ \<Rightarrow> True | AutoTable _ \<Rightarrow> True | Save _ \<Rightarrow> True | _ \<Rightarrow> False)"

definition tables :: "call list \<Rightarrow> autotable_options list" where
  "tables cs = concat (map (\<lambda>c. case c of AutoTable t \<Rightarrow> [t] | _ \<Rightarrow> []) cs)"

definition images :: "call list \<Rightarrow> string list" where
  "images cs = concat (map (\<lambda>c. case c of AddImage img _ _ _ _ _ \<Rightarrow> [img] | _ \<Rightarrow> []) cs)"

definition saved_files :: "call list \<Rightarrow> string list" where
  "saved_files cs = concat (map (\<lambda>c. case c of Save f \<Rightarrow> [f] | _ \<Rightarrow> []) cs)"

text \<open>The record of references that the rows of a list of items are built with.\<close>

definition productReferenceMap :: "env \<Rightarrow> InvoicePdfItem list \<Rightarrow> (string \<rightharpoonup> string)" where
  "productReferenceMap e its = snd (loadProductReferenceMap e (unresolvedProductIds its))"

text \<open>
  The height of the two boxes of an invoice: the left one is laid out on the document
  as the header left it, the right one on the document as the left box left it.
\<close>

definition leftHeight :: "env \<Rightarrow> jsPDF \<Rightarrow> InvoicePdfData \<Rightarrow> rat" where
  "leftHeight e doc0 invoice = sectionBox_height e doc0 (leftBoxParams e invoice)"

definition rightHeight :: "env \<Rightarrow> jsPDF \<Rightarrow> InvoicePdfData \<Rightarrow> rat" where
  "rightHeight e doc0 invoice =
     sectionBox_height e (fst (drawSectionBox e doc0 (leftBoxParams e invoice)))
       (rightBoxParams e invoice)"

text \<open>Every value of a box fits on one line, under the font of the document.\<close>

definition one_line_each :: "env \<Rightarrow> jsPDF \<Rightarrow> DrawSectionBoxParams \<Rightarrow> bool" where
  "one_line_each e doc0 params = list_all (\<lambda>r. length (snd r) \<le> 1) (wrappedValues e doc0 params)"

text \<open>
  What a rendering shows: the first and the last cell of every row of its tables (the
  reference and the line total), and the height at which its tables start.
\<close>

definition first_cells :: "rendering \<Rightarrow> cell list list" where
  "first_cells out = map (\<lambda>t. map hd (body t)) (tables (calls (document out)))"

definition last_cells :: "rendering \<Rightarrow> cell list list" where
  "last_cells out = map (\<lambda>t. map last (body t)) (tables (calls (document out)))"

definition table_starts :: "rendering \<Rightarrow> rat list" where
  "table_starts out = map startY (tables (calls (document out)))"


text \<open>
  The texts drawn with the option \<^verbatim>\<open>{ align: "left" }\<close>: the company block is the only
  part of the module that draws such texts.
\<close>

definition company_texts :: "call list \<Rightarrow> string list" where
  "company_texts cs =
     concat (map (\<lambda>c. case c of Text s _ _ (Some a) \<Rightarrow> if a = ''left'' then [s] else [] | _ \<Rightarrow> [])
               cs)"



subsection \<open>The words of the specification\<close>

text \<open>
  The reference of the catalog for one product identifier: what the reference resolver
  answers when it is asked for this identifier alone (nothing when it has no answer).
\<close>

definition catalog_reference :: "env \<Rightarrow> string \<Rightarrow> string" where
  "catalog_reference e pid = nullish (snd (loadProductReferenceMap e [pid]) pid) []"

text \<open>
  The precedence of the printed reference: the inline reference, else the reference of
  the catalog, else the product identifier, else a dash.
\<close>

definition printed_reference :: "env \<Rightarrow> InvoicePdfItem \<Rightarrow> string" where
  "printed_reference e item =
     (if inlineReference item \<noteq> [] then inlineReference item
      else if catalog_reference e (product_id item) \<noteq> [] then catalog_reference e (product_id item)
      else if product_id item \<noteq> [] then product_id item
      else ''-'')"


text \<open>Quantity times unit price, each one 0 when it is absent.\<close>

definition quantity_times_unitPrice :: "InvoicePdfItem \<Rightarrow> number" where
  "quantity_times_unitPrice item =
     mul (nullish (quantity item) (Fin 0)) (nullish (unitPrice item) (Fin 0))"

text \<open>
  The fetch of the logo fails: the request is rejected, the response is not a success,
  or the body cannot be read or decoded.
\<close>

definition fetch_fails :: "env \<Rightarrow> string \<Rightarrow> bool" where
  "fetch_fails e url =
     (case fetch e url of
        Throws \<Rightarrow> True
      | Returns r \<Rightarrow>
          \<not> ok r \<or>
          (case blob r of Throws \<Rightarrow> True | Returns b \<Rightarrow> readAsDataURL e b = Throws))"

text \<open>
  A stored profile has content: its name or its email is a string that is not blank,
  or one of its phone numbers or addresses is not blank.
\<close>

definition has_text :: "json option \<Rightarrow> bool" where
  "has_text v = (case v of Some (JString s) \<Rightarrow> trim s \<noteq> [] | _ \<Rightarrow> False)"

definition has_entry :: "env \<Rightarrow> json option \<Rightarrow> bool" where
  "has_entry e v =
     (case v of
        Some (JArray xs) \<Rightarrow>
          list_ex (\<lambda>p. case String_nullish e p of Throws \<Rightarrow> False | Returns t \<Rightarrow> trim t \<noteq> []) xs
      | _ \<Rightarrow> False)"

definition profile_has_content :: "env \<Rightarrow> json \<Rightarrow> bool" where
  "profile_has_content e parsed =
     (has_text (property parsed ''name'') \<or> has_text (property parsed ''email'') \<or>
      has_entry e (property parsed ''phoneNumbers'') \<or> has_entry e (property parsed ''addresses''))"

text \<open>The stored profile, when there is one that parses to something else than \<^verbatim>\<open>null\<close>.\<close>

definition stored_profile :: "env \<Rightarrow> json option" where
  "stored_profile e =
     (if \<not> has_window e then None
      else (case getItem e ''companyProfile'' of
              Returns (Some raw) \<Rightarrow>
                if raw = [] then None
                else (case JSON_parse e raw of
                        Returns parsed \<Rightarrow> if parsed = JNull then None else Some parsed
                      | Throws \<Rightarrow> None)
            | _ \<Rightarrow> None))"

subsection \<open>An example environment and example calls\<close>

text \<open>
  The example environment prints dates as the locale \<^verbatim>\<open>en-US\<close> does in the time zone
  UTC: month, day and year of the proleptic Gregorian calendar, from the number of the
  day since 1 January 1970. Its clock shows day 20000, which is 4 October 2024.
\<close>

definition civil_from_days :: "int \<Rightarrow> int \<times> int \<times> int" where
  "civil_from_days days =
     (let z = days + 719468;
          era = z div 146097;
          doe = z - era * 146097;
          yoe = (doe - doe div 1460 + doe div 36524 - doe div 146096) div 365;
          doy = doe - (365 * yoe + yoe div 4 - yoe div 100);
          mp = (5 * doy + 2) div 153;
          d = doy - (153 * mp + 2) div 5 + 1;
          m = (if mp < 10 then mp + 3 else mp - 9);
          y = yoe + era * 400 + (if m \<le> 2 then 1 else 0)
      in (y, m, d))"

definition en_US_date :: "jsdate \<Rightarrow> string" where
  "en_US_date d =
     (case d of
        InvalidDate \<Rightarrow> ''Invalid Date''
      | Date t \<Rightarrow>
          (case civil_from_days (t div 86400000) of
             (y, m, d) \<Rightarrow> decimal m @ ''/'' @ decimal d @ ''/'' @ decimal y))"

definition example_env :: env where
  "example_env =
     \<lparr>has_window = True,
      now = 20000 * 86400000,
      Date_parse = (\<lambda>s. InvalidDate),
      toLocaleDateString = en_US_date,
      Number_toString =
        (\<lambda>n. case n of
               NaN \<Rightarrow> ''NaN''
             | PosInf \<Rightarrow> ''Infinity''
             | NegInf \<Rightarrow> ''-Infinity''
             | Fin x \<Rightarrow> decimal \<lfloor>x\<rfloor>),
      getItem = (\<lambda>k. Returns None),
      JSON_parse = (\<lambda>s. Throws),
      fetch = (\<lambda>u. Returns \<lparr>ok = False, blob = Throws\<rparr>),
      readAsDataURL = (\<lambda>b. Throws),
      Image_load = (\<lambda>d. Throws),
      import_firestore = True,
      getDoc =
        (\<lambda>pid. if pid = ''P1'' then Returns (Exists ''P1'' (Some ''REF-P1''))
               else if pid = ''P2'' then Throws
               else Returns Missing),
      pageWidth = 210,
      pageHeight = 297,
      splitTextToSize = (\<lambda>f s w. [s]),
      addImage_throws = (\<lambda>d. False),
      autoTable_finalY = (\<lambda>t. Some (startY t + 10)),
      getNumberOfPages = (\<lambda>t. 1)\<rparr>"

definition no_item :: InvoicePdfItem where
  "no_item =
     \<lparr>item_id = None, productId = None, reference = None, sku = None, description = None,
      quantity = None, unitPrice = None, totalPrice = None\<rparr>"

text \<open>Quantity 3, unit price 10, no total price, product \<^verbatim>\<open>P1\<close>, no inline reference.\<close>

definition example_item :: InvoicePdfItem where
  "example_item =
     no_item\<lparr>productId := Some ''P1'', quantity := Some (Fin 3), unitPrice := Some (Fin 10)\<rparr>"

definition example_items :: "InvoicePdfItem list" where
  "example_items =
     [example_item,
      no_item\<lparr>reference := Some '' R1 '', productId := Some ''P1''\<rparr>,
      no_item\<lparr>item_id := Some ''X9''\<rparr>,
      no_item]"

definition example_client_record :: InvoicePdfClient where
  "example_client_record =
     \<lparr>client_name = Some ''Ada'', client_email = Some ''ada@example.org'',
      client_phone = Some ''555'', client_location = Some ''Tunis''\<rparr>"

text \<open>A unified record with no issue date, created on 1 January 1970.\<close>

definition example_invoice :: InvoicePdfData where
  "example_invoice =
     empty_object
       \<lparr>invoiceNumber := Some ''INV/2024#07'',
        createdAt := Some (DateObject (Date 1)),
        clientCIN := Some ''0123'',
        client := Some example_client_record,
        items := Some example_items,
        totalAmount := Some (Fin 30)\<rparr>"

definition example_client :: Client where
  "example_client =
     empty_object
       \<lparr>cin := Some ''0123'', name := Some ''Ada'', email := Some ''ada@example.org'',
        phone := Some ''555'', location := Some ''Tunis''\<rparr>"

definition example_order :: Order where
  "example_order =
     empty_object
       \<lparr>orderNumber := Some ''ORD-1'', items := Some [example_item],
        totalAmount := Some (Fin 30)\<rparr>"

definition example_options :: InvoicePdfOptions where
  "example_options = empty_object\<lparr>logoUrl := Some ''/logo.png''\<rparr>"



definition example_rendering :: rendering where
  "example_rendering = renderBody example_env (drawHeader example_env None) example_invoice"

definition example_legacy_rendering :: rendering where
  "example_legacy_rendering =
     renderBody example_env (drawHeader example_env None) (normalize example_client example_order)"

text \<open>
  An order with one item that has the inline reference \<^verbatim>\<open>R1\<close> and the product
  \<^verbatim>\<open>P1\<close>, which the catalog of the example environment resolves to \<^verbatim>\<open>REF-P1\<close>;
  the unified record with the same number, date, client, item and totals; and the
  renderings of the two.
\<close>

definition referenced_item :: InvoicePdfItem where
  "referenced_item =
     \<lparr>item_id = Some ''L1'', productId = Some ''P1'', reference = Some ''R1'', sku = None,
      description = Some ''Widget'', quantity = Some (Fin 1), unitPrice = Some (Fin 10),
      totalPrice = Some (Fin 10)\<rparr>"

definition referenced_order :: Order where
  "referenced_order =
     empty_object
       \<lparr>orderNumber := Some ''ORD-2'', createdAt := Some (DateObject (Date 1)),
        items := Some [referenced_item], subtotal := Some (Fin 10), taxRate := Some (Fin 0),
        taxAmount := Some (Fin 0), totalAmount := Some (Fin 10)\<rparr>"

definition referenced_invoice :: InvoicePdfData where
  "referenced_invoice =
     empty_object
       \<lparr>invoiceNumber := Some ''ORD-2'', createdAt := Some (DateObject (Date 1)),
        clientCIN := Some ''0123'', client := Some example_client_record,
        items := Some [referenced_item], subtotal := Some (Fin 10), taxRate := Some (Fin 0),
        taxAmount := Some (Fin 0), totalAmount := Some (Fin 10)\<rparr>"

definition referenced_legacy_rendering :: rendering where
  "referenced_legacy_rendering =
     renderBody example_env (drawHeader example_env None)
       (normalize example_client referenced_order)"

definition referenced_rendering :: rendering where
  "referenced_rendering =
     renderBody example_env (drawHeader example_env None) referenced_invoice"

text \<open>
  An environment in which the Firestore module cannot be imported, and a unified record
  whose item is the product \<^verbatim>\<open>constructor\<close>.
\<close>

definition offline_env :: env where
  "offline_env = example_env\<lparr>import_firestore := False\<rparr>"

definition constructor_item :: InvoicePdfItem where
  "constructor_item =
     \<lparr>item_id = Some ''L1'', productId = Some ''constructor'', reference = None, sku = None,
      description = Some ''Widget'', quantity = Some (Fin 1), unitPrice = Some (Fin 10),
      totalPrice = Some (Fin 10)\<rparr>"

definition constructor_invoice :: InvoicePdfData where
  "constructor_invoice =
     empty_object
       \<lparr>invoiceNumber := Some ''INV-4'', client := Some example_client_record,
        items := Some [constructor_item], totalAmount := Some (Fin 10)\<rparr>"

definition constructor_rendering :: rendering where
  "constructor_rendering =
     renderBody offline_env (drawHeader offline_env None) constructor_invoice"

text \<open>
  An order with one item of quantity 3 and unit price 10 that has no total price; the
  unified record with the same number, date, client, item and totals; and the
  renderings of the two.
\<close>

definition unpriced_item :: InvoicePdfItem where
  "unpriced_item =
     \<lparr>item_id = Some ''L1'', productId = Some ''P1'', reference = None, sku = None,
      description = Some ''Widget'', quantity = Some (Fin 3), unitPrice = Some (Fin 10),
      totalPrice = None\<rparr>"

definition unpriced_order :: Order where
  "unpriced_order =
     empty_object
       \<lparr>orderNumber := Some ''ORD-3'', createdAt := Some (DateObject (Date 1)),
        items := Some [unpriced_item], subtotal := Some (Fin 30), taxRate := Some (Fin 0),
        taxAmount := Some (Fin 0), totalAmount := Some (Fin 30)\<rparr>"

definition unpriced_invoice :: InvoicePdfData where
  "unpriced_invoice =
     empty_object
       \<lparr>invoiceNumber := Some ''ORD-3'', createdAt := Some (DateObject (Date 1)),
        clientCIN := Some ''0123'', client := Some example_client_record,
        items := Some [unpriced_item], subtotal := Some (Fin 30), taxRate := Some (Fin 0),
        taxAmount := Some (Fin 0), totalAmount := Some (Fin 30)\<rparr>"

definition unpriced_legacy_rendering :: rendering where
  "unpriced_legacy_rendering =
     renderBody example_env (drawHeader example_env None)
       (normalize example_client unpriced_order)"

definition unpriced_rendering :: rendering where
  "unpriced_rendering =
     renderBody example_env (drawHeader example_env None) unpriced_invoice"

text \<open>
  Environments with a stored company profile: one whose fields are all blank after
  trimming (its name is a no-break space and a space), one with a name, one with a
  phone number that has no string, and one whose stored text does not parse.
\<close>

definition blank_profile :: json where
  "blank_profile =
     JObject [(''name'', JString [CHR 0xC2, CHR 0xA0, CHR '' '']), (''email'', JNumber (Fin 5)),
              (''phoneNumbers'', JArray [JString '' '', JNull]), (''addresses'', JArray [])]"

definition blank_profile_env :: env where
  "blank_profile_env =
     example_env\<lparr>getItem := (\<lambda>k. Returns (Some ''stored'')),
                   JSON_parse := (\<lambda>s. Returns blank_profile)\<rparr>"

definition acme_profile :: json where
  "acme_profile = JObject [(''name'', JString '' Acme ''), (''phoneNumbers'', JArray [JString '' ''])]"

definition acme_profile_env :: env where
  "acme_profile_env =
     example_env\<lparr>getItem := (\<lambda>k. Returns (Some ''stored'')),
                   JSON_parse := (\<lambda>s. Returns acme_profile)\<rparr>"

definition unprintable_profile :: json where
  "unprintable_profile =
     JObject [(''name'', JString ''Acme''),
              (''phoneNumbers'', JArray [JObject [(''toString'', JNumber (Fin 1))]])]"

definition unprintable_profile_env :: env where
  "unprintable_profile_env =
     example_env\<lparr>getItem := (\<lambda>k. Returns (Some ''stored'')),
                   JSON_parse := (\<lambda>s. Returns unprintable_profile)\<rparr>"

definition broken_profile_env :: env where
  "broken_profile_env =
     example_env\<lparr>getItem := (\<lambda>k. Returns (Some ''{'')), JSON_parse := (\<lambda>s. Throws)\<rparr>"

section \<open>Properties\<close>

subsection \<open>The file name\<close>

lemma replace_runs_good_prefix:
  "replace_runs bad new s =
     takeWhile (\<lambda>c. \<not> bad c) s @ replace_runs bad new (dropWhile (\<lambda>c. \<not> bad c) s)"
  by (induction s) simp_all

lemma replace_each_run_good_prefix:
  "replace_each_run bad new s =
     takeWhile (\<lambda>c. \<not> bad c) s @ replace_each_run bad new (dropWhile (\<lambda>c. \<not> bad c) s)"
proof (cases s)
  case Nil
  then show ?thesis by simp
next
  case (Cons x xs)
  show ?thesis
  proof (cases "bad x")
    case True
    with Cons show ?thesis by simp
  next
    case False
    then have "(\<lambda>y. bad y = bad x) = (\<lambda>c. \<not> bad c)" by auto
    with Cons False show ?thesis by (simp add: replace_each_run_def)
  qed
qed

lemma replace_runs_eq_each_run: "replace_runs bad new s = replace_each_run bad new s"
proof (induction bad new s rule: replace_runs.induct)
  case (1 bad new)
  show ?case by (simp add: replace_each_run_def)
next
  case (2 bad new c cs)
  show ?case
  proof (cases "bad c")
    case True
    then have "(\<lambda>y. bad y = bad c) = bad" by auto
    with True 2 show ?thesis by (simp add: replace_each_run_def)
  next
    case False
    with 2 have "replace_runs bad new cs = replace_each_run bad new cs" by simp
    with False show ?thesis
      using replace_each_run_good_prefix [of bad new "c # cs"]
            replace_each_run_good_prefix [of bad new cs]
      by simp
  qed
qed

lemma set_replace_runs: "set (replace_runs bad new s) \<subseteq> set new \<union> {c \<in> set s. \<not> bad c}"
proof (induction bad new s rule: replace_runs.induct)
  case (1 bad new)
  show ?case by simp
next
  case (2 bad new c cs)
  have "set (dropWhile bad cs) \<subseteq> set cs"
    by (rule set_dropWhileD [THEN subsetI])
  with 2 show ?case by (auto split: if_splits)
qed

lemma toLowerCase_safe:
  "safe_char c \<Longrightarrow> toLowerCase_char c \<in> set (lower_alpha @ digit_chars @ ''-_'')"
  by (auto simp: safe_char_def toLowerCase_char_def lower_alpha_def upper_alpha_def
      digit_chars_def)

lemma set_safeFile: "set (safeFile n) \<subseteq> set (lower_alpha @ digit_chars @ ''-_'')"
proof
  fix c
  assume "c \<in> set (safeFile n)"
  then obtain d where d: "d \<in> set (replace_runs (\<lambda>c. \<not> safe_char c) ''-'' (or_else n ''invoice''))"
    and c: "c = toLowerCase_char d"
    by (auto simp: safeFile_def toLowerCase_def)
  from d set_replace_runs [of "\<lambda>c. \<not> safe_char c" "''-''" "or_else n ''invoice''"]
  have "d = CHR ''-'' \<or> safe_char d" by auto
  moreover have "safe_char (CHR ''-'')"
    by (simp add: safe_char_def)
  ultimately have "safe_char d" by auto
  with c show "c \<in> set (lower_alpha @ digit_chars @ ''-_'')"
    by (simp only: toLowerCase_safe)
qed

subsection \<open>Calls made by the parts\<close>

lemma calls_record_call: "calls (record_call c d) = calls d @ [c]"
  by (simp add: record_call_def)

lemma calls_primitives:
  "calls (setFillColor col d) = calls d @ [SetFillColor col]"
  "calls (setDrawColor col d) = calls d @ [SetDrawColor col]"
  "calls (setTextColor col d) = calls d @ [SetTextColor col]"
  "calls (setLineWidth lw d) = calls d @ [SetLineWidth lw]"
  "calls (setFont f st d) = calls d @ [SetFont f st]"
  "calls (setFontSize sz d) = calls d @ [SetFontSize sz]"
  "calls (rect x y w h style d) = calls d @ [Rect x y w h style]"
  "calls (roundedRect x y w h rx ry d) = calls d @ [RoundedRect x y w h rx ry]"
  "calls (addImage img fmt x y w h d) = calls d @ [AddImage img fmt x y w h]"
  "calls (text_at s x y al d) = calls d @ [Text s x y al]"
  "calls (line x1 y1 x2 y2 d) = calls d @ [Line x1 y1 x2 y2]"
  "calls (autoTable opts d) = calls d @ [AutoTable opts]"
  "calls (setPage p d) = calls d @ [SetPage p]"
  "calls (save file d) = calls d @ [Save file]"
  by (simp_all add: calls_record_call setFillColor_def setDrawColor_def setTextColor_def
      setLineWidth_def setFont_def setFontSize_def rect_def roundedRect_def addImage_def
      text_at_def line_def autoTable_def setPage_def save_def)

lemma principal_simps:
  "\<not> principal (SetFillColor col)" "\<not> principal (SetDrawColor col)"
  "\<not> principal (SetTextColor col)" "\<not> principal (SetLineWidth lw)"
  "\<not> principal (SetFont f st)" "\<not> principal (SetFontSize sz)"
  "\<not> principal (Rect x y w h style)" "\<not> principal (RoundedRect x y w h rx ry)"
  "principal (AddImage img fmt x y w h)" "\<not> principal (Text s x y al)"
  "\<not> principal (Line x1 y1 x2 y2)" "principal (AutoTable opts)"
  "\<not> principal (SetPage p)" "principal (Save file)"
  by (simp_all add: principal_def)

lemma principal_fold:
  assumes "\<And>x d. filter principal (calls (f x d)) = filter principal (calls d)"
  shows "filter principal (calls (fold f xs d)) = filter principal (calls d)"
  using assms by (induction xs arbitrary: d) simp_all

lemma principal_fold_snd:
  assumes "\<And>x st. filter principal (calls (snd (f x st))) = filter principal (calls (snd st))"
  shows "filter principal (calls (snd (fold f xs st))) = filter principal (calls (snd st))"
  using assms by (induction xs arbitrary: st) simp_all

lemma principal_drawHeaderBand:
  "filter principal (calls (drawHeaderBand e d)) = filter principal (calls d)"
  by (simp add: drawHeaderBand_def Let_def calls_primitives principal_simps)

lemma principal_drawTitle:
  "filter principal (calls (drawTitle e d)) = filter principal (calls d)"
  by (simp add: drawTitle_def Let_def calls_primitives principal_simps)

lemma principal_drawLines:
  "filter principal (calls (snd (drawLines tx lg lns st))) = filter principal (calls (snd st))"
  unfolding drawLines_def
  by (rule principal_fold_snd) (simp add: case_prod_beta calls_primitives principal_simps)

lemma principal_drawWrapped:
  "filter principal (calls (snd (drawWrapped e tx mw lg s st))) = filter principal (calls (snd st))"
  by (simp add: drawWrapped_def principal_drawLines)

lemma principal_company_parts:
  "filter principal (calls (snd (drawCompanyName e tx mw lg pr st))) = filter principal (calls (snd st))"
  "filter principal (calls (snd (drawCompanyEmail e tx mw lg pr st))) = filter principal (calls (snd st))"
  "filter principal (calls (snd (drawCompanyPhones e tx mw lg ps st))) = filter principal (calls (snd st))"
  "filter principal (calls (snd (drawCompanyAddresses e tx mw lg ps st))) = filter principal (calls (snd st))"
  by (simp_all add: drawCompanyName_def drawCompanyEmail_def drawCompanyPhones_def
      drawCompanyAddresses_def Let_def principal_drawWrapped calls_primitives principal_simps)

lemma principal_drawCompanyBlock:
  "filter principal (calls (drawCompanyBlock e c d)) = filter principal (calls d)"
  by (simp add: drawCompanyBlock_def Let_def case_prod_beta principal_company_parts
      calls_primitives principal_simps)

lemma principal_drawSectionBox_row:
  "filter principal (calls (snd (drawSectionBox_row x px lw rg r st))) =
   filter principal (calls (snd st))"
proof -
  have "filter principal (calls (fold (\<lambda>(idx, ln). text_at ln a (b + of_nat idx * rg) None) ys d)) =
        filter principal (calls d)" for a b ys d
    by (rule principal_fold) (simp add: case_prod_beta calls_primitives principal_simps)
  then show ?thesis
    by (simp add: drawSectionBox_row_def Let_def calls_primitives principal_simps)
qed

lemma principal_drawSectionBox:
  "filter principal (calls (fst (drawSectionBox e d p))) = filter principal (calls d)"
proof -
  have "filter principal (calls (snd (fold (drawSectionBox_row x px lw rg) ws st))) =
        filter principal (calls (snd st))" for x px lw rg ws st
    by (rule principal_fold_snd) (rule principal_drawSectionBox_row)
  then show ?thesis
    by (simp add: drawSectionBox_def Let_def calls_primitives principal_simps)
qed

lemma principal_drawTotals:
  "filter principal (calls (drawTotals e v y d)) = filter principal (calls d)"
  by (simp add: drawTotals_def Let_def calls_primitives principal_simps)

lemma principal_drawFooters:
  "filter principal (calls (drawFooters e n d)) = filter principal (calls d)"
  unfolding drawFooters_def
  by (rule principal_fold) (simp add: drawFooter_def Let_def calls_primitives principal_simps)


lemma snd_drawSectionBox: "snd (drawSectionBox e d p) = sectionBox_height e d p"
  by (simp add: drawSectionBox_def Let_def)

lemma principal_renderBody:
  "filter principal (calls (document (renderBody e d v))) =
   filter principal (calls d) @
   [AutoTable \<lparr>startY = contentTop + max (leftHeight e d v) (rightHeight e d v) + 12,
               body = map (table_row e (productReferenceMap e (nullish (items v) [])))
                        (nullish (items v) [])\<rparr>,
    Save (safeFile (nullish (invoiceNumber v) []) @ ''.pdf'')]"
  by (simp add: renderBody_def Let_def case_prod_beta calls_primitives principal_simps
      principal_drawFooters principal_drawTotals principal_drawSectionBox snd_drawSectionBox
      leftHeight_def rightHeight_def productReferenceMap_def)

lemma getDoc_calls_renderBody:
  "getDoc_calls (renderBody e d v) =
   fst (loadProductReferenceMap e (unresolvedProductIds (nullish (items v) [])))"
  by (simp add: renderBody_def Let_def case_prod_beta)

lemma tables_append: "tables (xs @ ys) = tables xs @ tables ys"
  by (simp add: tables_def)

lemma images_append: "images (xs @ ys) = images xs @ images ys"
  by (simp add: images_def)

lemma saved_files_append: "saved_files (xs @ ys) = saved_files xs @ saved_files ys"
  by (simp add: saved_files_def)

lemma tables_principal: "tables (filter principal cs) = tables cs"
  by (induction cs) (auto simp: tables_def principal_def split: call.splits)

lemma images_principal: "images (filter principal cs) = images cs"
  by (induction cs) (auto simp: images_def principal_def split: call.splits)

lemma saved_files_principal: "saved_files (filter principal cs) = saved_files cs"
  by (induction cs) (auto simp: saved_files_def principal_def split: call.splits)

lemma drawLogo_None: "drawLogo e None d = d"
  by (simp add: drawLogo_def truthy_string_def)

lemma calls_drawLogo:
  "calls (drawLogo e l d) = calls d \<or>
   (\<exists>img x y w h. calls (drawLogo e l d) = calls d @ [AddImage img ''PNG'' x y w h])"
  by (simp add: drawLogo_def Let_def case_prod_beta calls_primitives)

lemma tables_drawLogo: "tables (calls (drawLogo e l d)) = tables (calls d)"
  using calls_drawLogo [of e l d] by (auto simp: tables_def)

lemma saved_files_drawLogo: "saved_files (calls (drawLogo e l d)) = saved_files (calls d)"
  using calls_drawLogo [of e l d] by (auto simp: saved_files_def)

lemma calls_new_jsPDF: "calls new_jsPDF = []"
  by (simp add: new_jsPDF_def)

lemma tables_drawHeader: "tables (calls (drawHeader e opts)) = []"
proof -
  have "tables (calls (drawHeader e opts)) = tables (filter principal (calls (drawHeader e opts)))"
    by (simp add: tables_principal)
  also have "\<dots> = tables (calls (drawLogo e (loadImageAsDataUrl e (option_logoUrl opts))
                                 (drawHeaderBand e new_jsPDF)))"
    by (simp add: drawHeader_def Let_def principal_drawTitle principal_drawCompanyBlock
        tables_principal)
  also have "\<dots> = tables (filter principal (calls (drawHeaderBand e new_jsPDF)))"
    by (simp add: tables_drawLogo tables_principal)
  also have "\<dots> = []"
    by (simp add: principal_drawHeaderBand calls_new_jsPDF tables_def)
  finally show ?thesis .
qed

lemma saved_files_drawHeader: "saved_files (calls (drawHeader e opts)) = []"
proof -
  have "saved_files (calls (drawHeader e opts)) =
        saved_files (filter principal (calls (drawHeader e opts)))"
    by (simp add: saved_files_principal)
  also have "\<dots> = saved_files (calls (drawLogo e (loadImageAsDataUrl e (option_logoUrl opts))
                                 (drawHeaderBand e new_jsPDF)))"
    by (simp add: drawHeader_def Let_def principal_drawTitle principal_drawCompanyBlock
        saved_files_principal)
  also have "\<dots> = saved_files (filter principal (calls (drawHeaderBand e new_jsPDF)))"
    by (simp add: saved_files_drawLogo saved_files_principal)
  also have "\<dots> = []"
    by (simp add: principal_drawHeaderBand calls_new_jsPDF saved_files_def)
  finally show ?thesis .
qed

lemma images_drawHeader_no_logo:
  assumes "loadImageAsDataUrl e (option_logoUrl opts) = None"
  shows "images (calls (drawHeader e opts)) = []"
proof -
  have "images (calls (drawHeader e opts)) = images (filter principal (calls (drawHeader e opts)))"
    by (simp add: images_principal)
  also have "\<dots> = images (filter principal (calls (drawHeaderBand e new_jsPDF)))"
    using assms
    by (simp add: drawHeader_def Let_def principal_drawTitle principal_drawCompanyBlock
        drawLogo_None)
  also have "\<dots> = []"
    by (simp add: principal_drawHeaderBand calls_new_jsPDF images_def)
  finally show ?thesis .
qed

lemma tables_rendering:
  "tables (calls (document (renderBody e (drawHeader e opts) v))) =
   [\<lparr>startY = contentTop + max (leftHeight e (drawHeader e opts) v)
                              (rightHeight e (drawHeader e opts) v) + 12,
     body = map (table_row e (productReferenceMap e (nullish (items v) [])))
              (nullish (items v) [])\<rparr>]"
proof -
  have "tables (calls (document (renderBody e (drawHeader e opts) v))) =
        tables (filter principal (calls (document (renderBody e (drawHeader e opts) v))))"
    by (simp add: tables_principal)
  then show ?thesis
    by (simp add: principal_renderBody tables_append tables_principal tables_drawHeader)
       (simp add: tables_def)
qed

lemma saved_files_rendering:
  "saved_files (calls (document (renderBody e (drawHeader e opts) v))) =
   [safeFile (nullish (invoiceNumber v) []) @ ''.pdf'']"
proof -
  have "saved_files (calls (document (renderBody e (drawHeader e opts) v))) =
        saved_files (filter principal (calls (document (renderBody e (drawHeader e opts) v))))"
    by (simp add: saved_files_principal)
  then show ?thesis
    by (simp add: principal_renderBody saved_files_append saved_files_principal
        saved_files_drawHeader)
       (simp add: saved_files_def)
qed

lemma images_rendering:
  "images (calls (document (renderBody e (drawHeader e opts) v))) =
   images (calls (drawHeader e opts))"
proof -
  have "images (calls (document (renderBody e (drawHeader e opts) v))) =
        images (filter principal (calls (document (renderBody e (drawHeader e opts) v))))"
    by (simp add: images_principal)
  then show ?thesis
    by (simp add: principal_renderBody images_append images_principal)
       (simp add: images_def)
qed

lemma first_cells_rendering:
  "first_cells (renderBody e (drawHeader e opts) v) =
   [map (\<lambda>item. hd (table_row e (productReferenceMap e (nullish (items v) [])) item))
      (nullish (items v) [])]"
  by (simp add: first_cells_def tables_rendering)

lemma last_cells_rendering:
  "last_cells (renderBody e (drawHeader e opts) v) =
   [map (\<lambda>item. last (table_row e (productReferenceMap e (nullish (items v) [])) item))
      (nullish (items v) [])]"
  by (simp add: last_cells_def tables_rendering)

lemma table_starts_rendering:
  "table_starts (renderBody e (drawHeader e opts) v) =
   [contentTop + max (leftHeight e (drawHeader e opts) v) (rightHeight e (drawHeader e opts) v) + 12]"
  by (simp add: table_starts_def tables_rendering)

lemma generateInvoicePDF_completes:
  "generateInvoicePDF e a1 a2 a3 = Inr (Some out) \<longleftrightarrow>
   has_window e \<and>
   (\<exists>v. invoice_of_call a1 a2 = Inr v \<and> out = renderBody e (drawHeader e (call_options a2 a3)) v)"
  by (auto simp: generateInvoicePDF_def invoice_of_call_def render_def Let_def
      split: sum.splits)

subsection \<open>Calls, their invoice and the saved file\<close>

lemma example_has_window: "has_window example_env"
  by (simp add: example_env_def)

lemma invoice_of_unified_call:
  "\<not> isClientOrderCall a2 \<Longrightarrow> invoice_of_call (Object v) a2 = Inr v"
  by (simp add: invoice_of_call_def call_invoice_def properties_def)

lemma invoice_of_legacy_call:
  "invoice_of_call (Object c) (Object order) = Inr (normalize c order)"
  by (simp add: invoice_of_call_def call_invoice_def properties_def isClientOrderCall_def
      truthy_object_def)

lemma not_isClientOrderCall_Undefined: "\<not> isClientOrderCall Undefined"
  by (simp add: isClientOrderCall_def truthy_object_def)

lemma call_options_Undefined: "call_options Undefined arg3 = None"
  by (simp add: call_options_def isClientOrderCall_def truthy_object_def)

lemma call_options_Object_Undefined: "call_options (Object ob) Undefined = None"
  by (simp add: call_options_def isClientOrderCall_def truthy_object_def)

lemma isClientOrderCall_Object: "isClientOrderCall (Object ob)"
  by (simp add: isClientOrderCall_def truthy_object_def)

lemma isClientOrderCall_iff: "isClientOrderCall arg2 \<longleftrightarrow> (\<exists>ob. arg2 = Object ob)"
  by (cases arg2) (simp_all add: isClientOrderCall_def truthy_object_def)

lemma call_options_unified: "\<not> isClientOrderCall arg2 \<Longrightarrow> call_options arg2 arg3 = None"
  by (cases arg2) (simp_all add: call_options_def isClientOrderCall_def truthy_object_def)

lemma call_options_legacy:
  "call_options (Object ob) arg3 = (case arg3 of Object opts \<Rightarrow> Some opts | _ \<Rightarrow> None)"
  by (simp add: call_options_def isClientOrderCall_Object)

lemma call_invoice_legacy:
  "call_invoice arg1 (Object ob) =
     (case properties arg1 of Inl err \<Rightarrow> Inl err | Inr c \<Rightarrow> Inr (Object (normalize c ob)))"
  by (simp add: call_invoice_def isClientOrderCall_Object properties_def split: sum.splits)

lemma generateInvoicePDF_legacy:
  "generateInvoicePDF e (Object c) (Object order) arg3 =
     (if has_window e
      then Inr (Some (renderBody e (drawHeader e (call_options (Object order) arg3))
                        (normalize c order)))
      else Inr None)"
  by (simp add: generateInvoicePDF_def call_invoice_legacy properties_def render_def Let_def)

lemma generateInvoicePDF_unified:
  "\<not> isClientOrderCall arg2 \<Longrightarrow>
   generateInvoicePDF e (Object v) arg2 arg3 =
     (if has_window e then Inr (Some (renderBody e (drawHeader e None) v)) else Inr None)"
  by (simp add: generateInvoicePDF_def call_invoice_def call_options_unified properties_def
      render_def Let_def)

lemma example_call:
  "generateInvoicePDF example_env (Object example_invoice) Undefined Undefined =
     Inr (Some example_rendering)"
  by (simp add: generateInvoicePDF_completes example_has_window invoice_of_unified_call
      not_isClientOrderCall_Undefined call_options_Undefined example_rendering_def)

lemma example_legacy_call:
  "generateInvoicePDF example_env (Object example_client) (Object example_order) Undefined =
     Inr (Some example_legacy_rendering)"
  by (simp add: generateInvoicePDF_completes example_has_window invoice_of_legacy_call
      call_options_Object_Undefined example_legacy_rendering_def)

lemma example_invoice_number: "nullish (invoiceNumber example_invoice) [] = ''INV/2024#07''"
  by (simp add: example_invoice_def nullish_def)

lemma example_invoice_items: "nullish (items example_invoice) [] = example_items"
  by (simp add: example_invoice_def nullish_def)

text \<open>
  C6. The saved file is named after the invoice number: every run of characters other
  than ASCII letters, digits, hyphen and underscore is replaced by one hyphen and the
  result is put in lower case, so that only lower-case letters, digits, hyphens and
  underscores remain (\<^verbatim>\<open>INV/2024#07\<close> gives \<^verbatim>\<open>inv-2024-07\<close>); an empty or absent
  invoice number gives \<^verbatim>\<open>invoice\<close>; the extension \<^verbatim>\<open>.pdf\<close> follows, and this is
  the one file that a completed call saves.
\<close>

theorem saved_file_name:
  "safeFile n =
     toLowerCase (replace_each_run (\<lambda>c. \<not> safe_char c) ''-'' (if n = [] then ''invoice'' else n)) \<and>
   set (safeFile n) \<subseteq> set (lower_alpha @ digit_chars @ ''-_'') \<and>
   safeFile ''INV/2024#07'' = ''inv-2024-07'' \<and>
   safeFile [] = ''invoice'' \<and>
   (generateInvoicePDF e arg1 arg2 arg3 = Inr (Some out) \<longrightarrow>
      (\<exists>v. invoice_of_call arg1 arg2 = Inr v \<and>
           saved_files (calls (document out)) =
             [safeFile (nullish (invoiceNumber v) []) @ ''.pdf'']))"
proof (intro conjI impI)
  show "safeFile n =
     toLowerCase (replace_each_run (\<lambda>c. \<not> safe_char c) ''-'' (if n = [] then ''invoice'' else n))"
    by (simp add: safeFile_def or_else_def replace_runs_eq_each_run)
  show "set (safeFile n) \<subseteq> set (lower_alpha @ digit_chars @ ''-_'')"
    by (rule set_safeFile)
  show "safeFile ''INV/2024#07'' = ''inv-2024-07''"
    by code_simp
  show "safeFile [] = ''invoice''"
    by code_simp
next
  assume "generateInvoicePDF e arg1 arg2 arg3 = Inr (Some out)"
  then obtain v where "invoice_of_call arg1 arg2 = Inr v"
    and "out = renderBody e (drawHeader e (call_options arg2 arg3)) v"
    by (auto simp: generateInvoicePDF_completes)
  then show "\<exists>v. invoice_of_call arg1 arg2 = Inr v \<and>
           saved_files (calls (document out)) =
             [safeFile (nullish (invoiceNumber v) []) @ ''.pdf'']"
    by (simp add: saved_files_rendering)
qed

theorem saved_file_name_witness:
  "generateInvoicePDF example_env (Object example_invoice) Undefined Undefined =
     Inr (Some example_rendering) \<and>
   saved_files (calls (document example_rendering)) = [''inv-2024-07.pdf'']"
proof -
  have v: "invoice_of_call (Object example_invoice) Undefined = Inr example_invoice"
    by (simp add: invoice_of_unified_call not_isClientOrderCall_Undefined)
  from example_call v example_invoice_number
    saved_file_name [of "''INV/2024#07''" example_env "Object example_invoice" Undefined Undefined
      example_rendering]
  show ?thesis by auto
qed

subsection \<open>The reference resolver\<close>

lemma set_fold_Set_add: "set (fold Set_add xs acc) = set acc \<union> set xs"
  by (induction xs arbitrary: acc) (auto simp: Set_add_def)

lemma distinct_fold_Set_add: "distinct acc \<Longrightarrow> distinct (fold Set_add xs acc)"
  by (induction xs arbitrary: acc) (auto simp: Set_add_def)

lemma set_Array_from_Set: "set (Array_from_Set xs) = set xs"
  by (simp add: Array_from_Set_def set_fold_Set_add)

lemma distinct_Array_from_Set: "distinct (Array_from_Set xs)"
  by (simp add: Array_from_Set_def distinct_fold_Set_add)

lemma Array_from_Set_Nil: "Array_from_Set xs = [] \<longleftrightarrow> xs = []"
  using set_Array_from_Set [of xs] by (metis set_empty)

lemma fold_entries:
  "fold (\<lambda>(k, v) m. m(k \<mapsto> v)) (map (\<lambda>k. (k, g k)) ks) m0 k =
     (if k \<in> set ks then Some (g k) else m0 k)"
  by (induction ks arbitrary: m0) auto

lemma lookup_entry_eq: "lookup_entry e = (\<lambda>pid. (pid, snd (lookup_entry e pid)))"
  by (auto simp: lookup_entry_def fun_eq_iff split: outcome.splits snapshot.splits)

lemma Object_fromEntries_lookups:
  "Object_fromEntries (map (lookup_entry e) ks) k =
     (if k \<in> set ks then Some (snd (lookup_entry e k)) else None)"
proof -
  have "Object_fromEntries (map (lookup_entry e) ks) k =
        Object_fromEntries (map (\<lambda>pid. (pid, snd (lookup_entry e pid))) ks) k"
    using lookup_entry_eq [of e] by simp
  then show ?thesis
    by (simp add: Object_fromEntries_def fold_entries)
qed

lemma looked_up:
  "fst (loadProductReferenceMap e ids) =
     (if has_window e \<and> import_firestore e then Array_from_Set (filter_Boolean ids) else [])"
  by (auto simp: loadProductReferenceMap_def Let_def Array_from_Set_def)

lemma resolved:
  "snd (loadProductReferenceMap e ids) k =
     (if has_window e \<and> import_firestore e \<and> k \<in> set ids \<and> k \<noteq> []
      then Some (snd (lookup_entry e k)) else None)"
  by (auto simp: loadProductReferenceMap_def Let_def Object_fromEntries_lookups
      set_Array_from_Set filter_Boolean_def Array_from_Set_Nil filter_empty_conv)

lemma set_filter_Boolean: "set (filter_Boolean ids) = {i \<in> set ids. i \<noteq> []}"
  by (auto simp: filter_Boolean_def)

text \<open>
  C7. The reference resolver looks nothing up when no identifier is left after the
  empty ones are dropped; it looks every identifier up at most once (exactly once
  when the window and the Firestore module are there); an identifier whose document
  is missing or whose lookup fails is mapped to itself; and whatever the lookups do,
  every identifier that was looked up has an entry in the result.
\<close>

theorem reference_resolver:
  "(filter_Boolean ids = [] \<longrightarrow> loadProductReferenceMap e ids = ([], Map.empty)) \<and>
   distinct (fst (loadProductReferenceMap e ids)) \<and>
   set (fst (loadProductReferenceMap e ids)) \<subseteq> {i \<in> set ids. i \<noteq> []} \<and>
   (has_window e \<and> import_firestore e \<longrightarrow>
      set (fst (loadProductReferenceMap e ids)) = {i \<in> set ids. i \<noteq> []}) \<and>
   (has_window e \<and> import_firestore e \<and> i \<in> set ids \<and> i \<noteq> [] \<and>
    (getDoc e i = Throws \<or> getDoc e i = Returns Missing) \<longrightarrow>
      snd (loadProductReferenceMap e ids) i = Some i) \<and>
   dom (snd (loadProductReferenceMap e ids)) = set (fst (loadProductReferenceMap e ids))"
proof (intro conjI impI)
  assume "filter_Boolean ids = []"
  then show "loadProductReferenceMap e ids = ([], Map.empty)"
    by (simp add: loadProductReferenceMap_def Let_def Array_from_Set_def)
next
  show "distinct (fst (loadProductReferenceMap e ids))"
    by (simp add: looked_up distinct_Array_from_Set)
next
  show "set (fst (loadProductReferenceMap e ids)) \<subseteq> {i \<in> set ids. i \<noteq> []}"
    by (auto simp: looked_up set_Array_from_Set set_filter_Boolean)
next
  assume "has_window e \<and> import_firestore e"
  then show "set (fst (loadProductReferenceMap e ids)) = {i \<in> set ids. i \<noteq> []}"
    by (simp add: looked_up set_Array_from_Set set_filter_Boolean)
next
  assume "has_window e \<and> import_firestore e \<and> i \<in> set ids \<and> i \<noteq> [] \<and>
    (getDoc e i = Throws \<or> getDoc e i = Returns Missing)"
  then show "snd (loadProductReferenceMap e ids) i = Some i"
    by (auto simp: resolved lookup_entry_def)
next
  show "dom (snd (loadProductReferenceMap e ids)) = set (fst (loadProductReferenceMap e ids))"
    by (auto simp: resolved looked_up set_Array_from_Set set_filter_Boolean dom_def)
qed

theorem reference_resolver_witness:
  "getDoc example_env ''P2'' = Throws \<and> getDoc example_env ''P9'' = Returns Missing \<and>
   filter_Boolean [[]] = [] \<and>
   loadProductReferenceMap example_env [[]] = ([], Map.empty) \<and>
   fst (loadProductReferenceMap example_env [''P2'', [], ''P9'', ''P2'', ''P1'']) = [''P2'', ''P9'', ''P1''] \<and>
   snd (loadProductReferenceMap example_env [''P2'', [], ''P9'', ''P2'', ''P1'']) ''P2'' = Some ''P2'' \<and>
   snd (loadProductReferenceMap example_env [''P2'', [], ''P9'', ''P2'', ''P1'']) ''P9'' = Some ''P9'' \<and>
   snd (loadProductReferenceMap example_env [''P2'', [], ''P9'', ''P2'', ''P1'']) ''P1'' = Some ''REF-P1''"
proof -
  have env: "has_window example_env" "import_firestore example_env"
    "getDoc example_env ''P2'' = Throws" "getDoc example_env ''P9'' = Returns Missing"
    by (simp_all add: example_env_def)
  have empty: "filter_Boolean [[]] = []"
    by (simp add: filter_Boolean_def)
  have calls: "fst (loadProductReferenceMap example_env [''P2'', [], ''P9'', ''P2'', ''P1'']) =
               [''P2'', ''P9'', ''P1'']"
    by (simp add: looked_up env Array_from_Set_def filter_Boolean_def Set_add_def)
  have p1: "snd (loadProductReferenceMap example_env [''P2'', [], ''P9'', ''P2'', ''P1'']) ''P1'' =
            Some ''REF-P1''"
    by (simp add: resolved env lookup_entry_def example_env_def nullish_def)
  from env empty calls p1
    reference_resolver [of "[[]]" example_env "[]"]
    reference_resolver [of "[''P2'', [], ''P9'', ''P2'', ''P1'']" example_env "''P2''"]
    reference_resolver [of "[''P2'', [], ''P9'', ''P2'', ''P1'']" example_env "''P9''"]
  show ?thesis by simp
qed

subsection \<open>The rows of the table\<close>

lemma catalog_reference_eq:
  "catalog_reference e pid =
     (if has_window e \<and> import_firestore e \<and> pid \<noteq> []
      then (case getDoc e pid of
              Returns (Exists snap_id data_reference) \<Rightarrow> nullish data_reference snap_id
            | _ \<Rightarrow> pid)
      else [])"
  by (auto simp: catalog_reference_def resolved nullish_def lookup_entry_def
      split: outcome.splits snapshot.splits)

lemma set_unresolvedProductIds:
  "set (unresolvedProductIds its) =
     {pid. pid \<noteq> [] \<and> (\<exists>item \<in> set its. inlineReference item = [] \<and> product_id item = pid)}"
  by (auto simp: unresolvedProductIds_def set_filter_Boolean)

lemma looked_up_for_items:
  "set (fst (loadProductReferenceMap e (unresolvedProductIds its))) \<subseteq>
     product_id ` {item \<in> set its. inlineReference item = []}"
  by (auto simp: looked_up set_Array_from_Set set_filter_Boolean set_unresolvedProductIds)

lemma productReferenceMap_item:
  assumes "item \<in> set its" and "inlineReference item = []" and "product_id item \<noteq> []"
  shows "productReferenceMap e its (product_id item) =
           (if has_window e \<and> import_firestore e
            then Some (catalog_reference e (product_id item)) else None)"
proof -
  from assms have "product_id item \<in> set (unresolvedProductIds its)"
    by (auto simp: set_unresolvedProductIds)
  with assms(3) show ?thesis
    by (simp add: productReferenceMap_def catalog_reference_def resolved nullish_def)
qed

lemma hd_table_row:
  assumes "item \<in> set its"
    and "product_id item \<notin> set Object_prototype \<or> (has_window e \<and> import_firestore e)"
  shows "hd (table_row e (productReferenceMap e its) item) = Cell (printed_reference e item)"
proof (cases "inlineReference item = []")
  case False
  then show ?thesis
    by (simp add: table_row_def Let_def printed_reference_def first_truthy_def)
next
  case True
  note inline = this
  show ?thesis
  proof (cases "product_id item = []")
    case True
    with inline show ?thesis
      by (simp add: table_row_def Let_def printed_reference_def first_truthy_def
          catalog_reference_eq)
  next
    case False
    with inline productReferenceMap_item [OF assms(1) inline False, of e] assms(2)
    show ?thesis
      by (auto simp: table_row_def Let_def printed_reference_def first_truthy_def
          get_property_def catalog_reference_eq)
  qed
qed

lemma hd_table_row_inherited:
  assumes "inlineReference item = []" and "product_id item \<in> set Object_prototype"
    and "\<not> (has_window e \<and> import_firestore e)"
  shows "hd (table_row e (productReferenceMap e its) item) = Inherited (product_id item)"
proof -
  have "productReferenceMap e its (product_id item) = None"
    using assms(3) by (auto simp: productReferenceMap_def resolved)
  moreover from assms(2) have "product_id item \<noteq> []"
    by (auto simp: Object_prototype_def)
  ultimately show ?thesis
    using assms(1,2) by (simp add: table_row_def Let_def first_truthy_def get_property_def)
qed

lemma referenced_calls:
  "generateInvoicePDF example_env (Object example_client) (Object referenced_order) Undefined =
     Inr (Some referenced_legacy_rendering)"
  "generateInvoicePDF example_env (Object referenced_invoice) Undefined Undefined =
     Inr (Some referenced_rendering)"
  "generateInvoicePDF offline_env (Object constructor_invoice) Undefined Undefined =
     Inr (Some constructor_rendering)"
  by (simp_all add: generateInvoicePDF_legacy generateInvoicePDF_unified
      not_isClientOrderCall_Undefined example_has_window call_options_legacy
      referenced_legacy_rendering_def referenced_rendering_def constructor_rendering_def
      offline_env_def)

lemma referenced_cells:
  "hd (table_row example_env (productReferenceMap example_env [normalize_item referenced_item])
         (normalize_item referenced_item)) = Cell ''REF-P1''"
  "hd (table_row example_env (productReferenceMap example_env [referenced_item])
         referenced_item) = Cell ''R1''"
  "hd (table_row offline_env (productReferenceMap offline_env [constructor_item])
         constructor_item) = Inherited ''constructor''"
  by code_simp+

lemma referenced_lookups:
  "fst (loadProductReferenceMap example_env (unresolvedProductIds [normalize_item referenced_item])) = [''P1'']"
  "fst (loadProductReferenceMap example_env (unresolvedProductIds [referenced_item])) = []"
  by code_simp+

text \<open>
  C1, at inputs where the code departs from it. An order item has the inline reference
  \<^verbatim>\<open>R1\<close> and the product \<^verbatim>\<open>P1\<close>, whose catalog reference is \<^verbatim>\<open>REF-P1\<close>. The
  \<^verbatim>\<open>(client, order)\<close> call prints \<^verbatim>\<open>REF-P1\<close> for it and asks the catalog for \<^verbatim>\<open>P1\<close>:
  the normalisation of the pair keeps no reference of an item. The call with the
  unified record of the same item prints \<^verbatim>\<open>R1\<close> and asks the catalog nothing. And
  where the Firestore module cannot be imported, the item of a product named
  \<^verbatim>\<open>constructor\<close> is printed with the value that the empty record of references
  inherits under that name, not with the product identifier.
\<close>

theorem legacy_reference_dropped:
  "items referenced_order = Some [referenced_item] \<and>
   reference referenced_item = Some ''R1'' \<and>
   productId referenced_item = Some ''P1'' \<and>
   getDoc example_env ''P1'' = Returns (Exists ''P1'' (Some ''REF-P1'')) \<and>
   generateInvoicePDF example_env (Object example_client) (Object referenced_order) Undefined =
     Inr (Some referenced_legacy_rendering) \<and>
   first_cells referenced_legacy_rendering = [[Cell ''REF-P1'']] \<and>
   getDoc_calls referenced_legacy_rendering = [''P1''] \<and>
   items referenced_invoice = Some [referenced_item] \<and>
   generateInvoicePDF example_env (Object referenced_invoice) Undefined Undefined =
     Inr (Some referenced_rendering) \<and>
   first_cells referenced_rendering = [[Cell ''R1'']] \<and>
   getDoc_calls referenced_rendering = [] \<and>
   import_firestore offline_env = False \<and>
   items constructor_invoice = Some [constructor_item] \<and>
   reference constructor_item = None \<and>
   productId constructor_item = Some ''constructor'' \<and>
   generateInvoicePDF offline_env (Object constructor_invoice) Undefined Undefined =
     Inr (Some constructor_rendering) \<and>
   first_cells constructor_rendering = [[Inherited ''constructor'']]"
proof -
  have data: "items referenced_order = Some [referenced_item]"
    "reference referenced_item = Some ''R1''" "productId referenced_item = Some ''P1''"
    "getDoc example_env ''P1'' = Returns (Exists ''P1'' (Some ''REF-P1''))"
    "items referenced_invoice = Some [referenced_item]"
    "import_firestore offline_env = False"
    "items constructor_invoice = Some [constructor_item]"
    "reference constructor_item = None" "productId constructor_item = Some ''constructor''"
    by (simp_all add: referenced_order_def referenced_invoice_def referenced_item_def
        example_env_def offline_env_def constructor_invoice_def constructor_item_def)
  have its: "nullish (items (normalize example_client referenced_order)) [] =
               [normalize_item referenced_item]"
    "nullish (items referenced_invoice) [] = [referenced_item]"
    "nullish (items constructor_invoice) [] = [constructor_item]"
    by (simp_all add: normalize_def data nullish_def)
  have legacy: "first_cells referenced_legacy_rendering = [[Cell ''REF-P1'']]"
    "getDoc_calls referenced_legacy_rendering = [''P1'']"
    by (simp_all add: referenced_legacy_rendering_def first_cells_rendering
        getDoc_calls_renderBody its referenced_cells referenced_lookups)
  have unified: "first_cells referenced_rendering = [[Cell ''R1'']]"
    "getDoc_calls referenced_rendering = []"
    by (simp_all add: referenced_rendering_def first_cells_rendering
        getDoc_calls_renderBody its referenced_cells referenced_lookups)
  have inherited: "first_cells constructor_rendering = [[Inherited ''constructor'']]"
    by (simp add: constructor_rendering_def first_cells_rendering its referenced_cells)
  from data referenced_calls legacy unified inherited show ?thesis
    by (intro conjI) assumption+
qed

subsection \<open>The line total\<close>

lemma last_table_row:
  "last (table_row e m item) =
     Cell (formatMoneyDt e (nullish (totalPrice item) (quantity_times_unitPrice item)))"
  by (simp add: table_row_def Let_def quantity_times_unitPrice_def)

lemma thirty: "formatMoneyDt example_env (mul (Fin 3) (Fin 10)) = ''30.00 Dt''"
  by code_simp

lemma zero_money: "formatMoneyDt e (Fin 0) = ''0.00 Dt''"
  by (simp add: formatMoneyDt_def toFixed2_def truthy_number_def CURRENCY_def digit_def
      digit_chars_def decimal.simps)

lemma unpriced_calls:
  "generateInvoicePDF example_env (Object example_client) (Object unpriced_order) Undefined =
     Inr (Some unpriced_legacy_rendering)"
  "generateInvoicePDF example_env (Object unpriced_invoice) Undefined Undefined =
     Inr (Some unpriced_rendering)"
  by (simp_all add: generateInvoicePDF_legacy generateInvoicePDF_unified
      not_isClientOrderCall_Undefined example_has_window call_options_legacy
      unpriced_legacy_rendering_def unpriced_rendering_def)

text \<open>
  C2, at an input where the code departs from it. The order item has quantity 3, unit
  price 10 and no total price. The \<^verbatim>\<open>(client, order)\<close> call prints the line total
  \<^verbatim>\<open>0.00 Dt\<close> for it: the normalisation of the pair sets an absent total price to 0
  before the row is built. The call with the unified record of the same item prints
  \<^verbatim>\<open>30.00 Dt\<close>.
\<close>

theorem legacy_line_total_is_zero:
  "items unpriced_order = Some [unpriced_item] \<and>
   quantity unpriced_item = Some (Fin 3) \<and>
   unitPrice unpriced_item = Some (Fin 10) \<and>
   totalPrice unpriced_item = None \<and>
   generateInvoicePDF example_env (Object example_client) (Object unpriced_order) Undefined =
     Inr (Some unpriced_legacy_rendering) \<and>
   last_cells unpriced_legacy_rendering = [[Cell ''0.00 Dt'']] \<and>
   items unpriced_invoice = Some [unpriced_item] \<and>
   generateInvoicePDF example_env (Object unpriced_invoice) Undefined Undefined =
     Inr (Some unpriced_rendering) \<and>
   last_cells unpriced_rendering = [[Cell ''30.00 Dt'']]"
proof -
  have item: "items unpriced_order = Some [unpriced_item]" "quantity unpriced_item = Some (Fin 3)"
    "unitPrice unpriced_item = Some (Fin 10)" "totalPrice unpriced_item = None"
    "items unpriced_invoice = Some [unpriced_item]"
    by (simp_all add: unpriced_order_def unpriced_invoice_def unpriced_item_def)
  have its: "nullish (items (normalize example_client unpriced_order)) [] =
               [normalize_item unpriced_item]"
    by (simp add: normalize_def item nullish_def)
  have "last (table_row example_env m (normalize_item unpriced_item)) = Cell ''0.00 Dt''" for m
    by (simp add: last_table_row normalize_item_def nullish_def zero_money item)
  then have legacy: "last_cells unpriced_legacy_rendering = [[Cell ''0.00 Dt'']]"
    by (simp add: unpriced_legacy_rendering_def last_cells_rendering its)
  have "last (table_row example_env m unpriced_item) = Cell ''30.00 Dt''" for m
    by (simp add: last_table_row quantity_times_unitPrice_def item nullish_def thirty)
  then have unified: "last_cells unpriced_rendering = [[Cell ''30.00 Dt'']]"
    by (simp add: unpriced_rendering_def last_cells_rendering item nullish_def)
  from unpriced_calls item legacy unified show ?thesis
    by (intro conjI) assumption+
qed

subsection \<open>The shape of a call\<close>

text \<open>
  C10. The shape of a call is decided by the second argument alone: when it is an
  object the call is a \<^verbatim>\<open>(client, order)\<close> call, whatever the first argument is, and
  the options are looked for in the third argument; otherwise the first argument is
  the invoice and there are no options. So a call with a unified record and an options
  object renders the normalisation of the record read as a client and the options
  read as an order, without options: the invoice number and the items are those of the
  options object, not those of the record.
\<close>

theorem second_argument_decides:
  "(isClientOrderCall arg2 \<longleftrightarrow> (\<exists>ob. arg2 = Object ob)) \<and>
   call_invoice arg1 (Object ob) =
     (case properties arg1 of Inl err \<Rightarrow> Inl err | Inr c \<Rightarrow> Inr (Object (normalize c ob))) \<and>
   call_options (Object ob) arg3 = (case arg3 of Object opts \<Rightarrow> Some opts | _ \<Rightarrow> None) \<and>
   (\<not> isClientOrderCall arg2 \<longrightarrow> call_invoice arg1 arg2 = Inr arg1 \<and> call_options arg2 arg3 = None) \<and>
   (has_window e \<longrightarrow>
      generateInvoicePDF e (Object invoice) (Object options) Undefined =
        Inr (Some (renderBody e (drawHeader e None) (normalize invoice options)))) \<and>
   invoiceNumber (normalize invoice options) = orderNumber options \<and>
   items (normalize invoice options) = Some (map normalize_item (nullish (items options) []))"
proof (intro conjI impI)
  show "isClientOrderCall arg2 \<longleftrightarrow> (\<exists>ob. arg2 = Object ob)"
    by (rule isClientOrderCall_iff)
  show "call_invoice arg1 (Object ob) =
     (case properties arg1 of Inl err \<Rightarrow> Inl err | Inr c \<Rightarrow> Inr (Object (normalize c ob)))"
    by (rule call_invoice_legacy)
  show "call_options (Object ob) arg3 = (case arg3 of Object opts \<Rightarrow> Some opts | _ \<Rightarrow> None)"
    by (rule call_options_legacy)
  show "invoiceNumber (normalize invoice options) = orderNumber options"
    by (simp add: normalize_def)
  show "items (normalize invoice options) = Some (map normalize_item (nullish (items options) []))"
    by (simp add: normalize_def)
next
  assume "\<not> isClientOrderCall arg2"
  then show "call_invoice arg1 arg2 = Inr arg1"
    by (simp add: call_invoice_def)
next
  assume "\<not> isClientOrderCall arg2"
  then show "call_options arg2 arg3 = None"
    by (rule call_options_unified)
next
  assume "has_window e"
  then show "generateInvoicePDF e (Object invoice) (Object options) Undefined =
        Inr (Some (renderBody e (drawHeader e None) (normalize invoice options)))"
    by (simp add: generateInvoicePDF_legacy call_options_legacy)
qed

theorem second_argument_decides_witness:
  "generateInvoicePDF example_env (Object example_invoice) (Object example_options) Undefined =
     Inr (Some (renderBody example_env (drawHeader example_env None)
                  (normalize example_invoice example_options))) \<and>
   invoiceNumber example_invoice = Some ''INV/2024#07'' \<and>
   items example_invoice = Some example_items \<and>
   logoUrl example_options = Some ''/logo.png'' \<and>
   saved_files (calls (document (renderBody example_env (drawHeader example_env None)
                                  (normalize example_invoice example_options)))) =
     [''invoice.pdf''] \<and>
   first_cells (renderBody example_env (drawHeader example_env None)
                  (normalize example_invoice example_options)) = [[]] \<and>
   \<not> isClientOrderCall Null \<and>
   call_invoice (Object example_invoice) Null = Inr (Object example_invoice) \<and>
   call_options Null (Object example_options) = None"
proof -
  let ?v = "normalize example_invoice example_options"
  have n: "nullish (invoiceNumber ?v) [] = []" "nullish (items ?v) [] = []"
    by (simp_all add: normalize_def example_options_def empty_object_def nullish_def)
  have f: "safeFile [] = ''invoice''"
    by code_simp
  have null: "\<not> isClientOrderCall Null"
    by (simp add: isClientOrderCall_def truthy_object_def)
  note T = second_argument_decides [of Null "Object example_invoice" example_options
      "Object example_options" example_env example_invoice example_options]
  note unified = T [THEN conjunct2, THEN conjunct2, THEN conjunct2, THEN conjunct1, rule_format]
  note rendered = T [THEN conjunct2, THEN conjunct2, THEN conjunct2, THEN conjunct2,
      THEN conjunct1, rule_format]
  from unified [OF null]
  have shape: "call_invoice (Object example_invoice) Null = Inr (Object example_invoice)"
    "call_options Null (Object example_options) = None"
    by simp_all
  have call: "generateInvoicePDF example_env (Object example_invoice) (Object example_options)
                Undefined =
              Inr (Some (renderBody example_env (drawHeader example_env None) ?v))"
    by (rule rendered) (rule example_has_window)
  have saved: "saved_files (calls (document (renderBody example_env (drawHeader example_env None) ?v))) =
        [''invoice.pdf'']"
    by (simp add: saved_files_rendering n f)
  have cells: "first_cells (renderBody example_env (drawHeader example_env None) ?v) = [[]]"
    by (simp add: first_cells_rendering n)
  have given: "invoiceNumber example_invoice = Some ''INV/2024#07''"
    "items example_invoice = Some example_items" "logoUrl example_options = Some ''/logo.png''"
    by (simp_all add: example_invoice_def example_options_def)
  from call given saved cells null shape show ?thesis
    by (intro conjI) assumption+
qed

subsection \<open>The logo\<close>

lemma loadImageAsDataUrl_fails: "fetch_fails e url \<Longrightarrow> loadImageAsDataUrl e url = None"
  by (auto simp: fetch_fails_def loadImageAsDataUrl_def split: outcome.splits)

text \<open>
  C4. When the fetch of the logo is rejected, answers with a response that is not a
  success, or gives a body that cannot be read or decoded, the logo loader returns
  \<^verbatim>\<open>null\<close>; and a call in a browser whose invoice can be read (its first argument is
  not \<^verbatim>\<open>undefined\<close> or \<^verbatim>\<open>null\<close>) then still returns normally, with a document that
  has no image and is saved under its file name.
\<close>

theorem logo_failure_is_soft:
  "(fetch_fails e url \<longrightarrow> loadImageAsDataUrl e url = None) \<and>
   (has_window e \<and> fetch_fails e (option_logoUrl (call_options arg2 arg3)) \<and>
    invoice_of_call arg1 arg2 = Inr v \<longrightarrow>
      (\<exists>out. generateInvoicePDF e arg1 arg2 arg3 = Inr (Some out) \<and>
             images (calls (document out)) = [] \<and>
             saved_files (calls (document out)) =
               [safeFile (nullish (invoiceNumber v) []) @ ''.pdf'']))"
proof (intro conjI impI)
  assume "fetch_fails e url"
  then show "loadImageAsDataUrl e url = None"
    by (rule loadImageAsDataUrl_fails)
next
  assume a: "has_window e \<and> fetch_fails e (option_logoUrl (call_options arg2 arg3)) \<and>
    invoice_of_call arg1 arg2 = Inr v"
  let ?out = "renderBody e (drawHeader e (call_options arg2 arg3)) v"
  from a have "generateInvoicePDF e arg1 arg2 arg3 = Inr (Some ?out)"
    by (simp add: generateInvoicePDF_completes)
  moreover from a have "images (calls (document ?out)) = []"
    by (simp add: images_rendering images_drawHeader_no_logo loadImageAsDataUrl_fails)
  moreover have "saved_files (calls (document ?out)) =
    [safeFile (nullish (invoiceNumber v) []) @ ''.pdf'']"
    by (rule saved_files_rendering)
  ultimately show "\<exists>out. generateInvoicePDF e arg1 arg2 arg3 = Inr (Some out) \<and>
             images (calls (document out)) = [] \<and>
             saved_files (calls (document out)) =
               [safeFile (nullish (invoiceNumber v) []) @ ''.pdf'']"
    by blast
qed

theorem logo_failure_is_soft_witness:
  "has_window example_env \<and>
   fetch example_env ''/logo.png'' = Returns \<lparr>ok = False, blob = Throws\<rparr> \<and>
   fetch_fails example_env ''/logo.png'' \<and>
   loadImageAsDataUrl example_env ''/logo.png'' = None \<and>
   option_logoUrl (call_options (Object example_order) (Object example_options)) = ''/logo.png'' \<and>
   generateInvoicePDF example_env (Object example_client) (Object example_order)
     (Object example_options) =
     Inr (Some (renderBody example_env (drawHeader example_env (Some example_options))
                  (normalize example_client example_order))) \<and>
   images (calls (document (renderBody example_env (drawHeader example_env (Some example_options))
                              (normalize example_client example_order)))) = [] \<and>
   saved_files (calls (document (renderBody example_env (drawHeader example_env (Some example_options))
                                   (normalize example_client example_order)))) = [''ord-1.pdf'']"
proof -
  let ?out = "renderBody example_env (drawHeader example_env (Some example_options))
                (normalize example_client example_order)"
  have f: "fetch example_env ''/logo.png'' = Returns \<lparr>ok = False, blob = Throws\<rparr>"
    by (simp add: example_env_def)
  then have fails: "fetch_fails example_env ''/logo.png''"
    by (simp add: fetch_fails_def)
  have opts: "call_options (Object example_order) (Object example_options) = Some example_options"
    by (simp add: call_options_legacy)
  have url: "option_logoUrl (call_options (Object example_order) (Object example_options)) = ''/logo.png''"
    by (simp only: opts) (simp add: option_logoUrl_def example_options_def nullish_def)
  have v: "invoice_of_call (Object example_client) (Object example_order) =
           Inr (normalize example_client example_order)"
    by (rule invoice_of_legacy_call)
  have call: "generateInvoicePDF example_env (Object example_client) (Object example_order)
                (Object example_options) = Inr (Some ?out)"
    using example_has_window by (simp add: generateInvoicePDF_legacy opts)
  have number: "nullish (invoiceNumber (normalize example_client example_order)) [] = ''ORD-1''"
    by (simp add: normalize_def example_order_def empty_object_def nullish_def)
  have saved: "safeFile ''ORD-1'' = ''ord-1''"
    by code_simp
  note T = logo_failure_is_soft [of example_env "''/logo.png''" "Object example_order"
      "Object example_options" "Object example_client" "normalize example_client example_order"]
  from T fails have none: "loadImageAsDataUrl example_env ''/logo.png'' = None"
    by simp
  from T example_has_window fails url v call number saved
  have "images (calls (document ?out)) = []"
    and "saved_files (calls (document ?out)) = [''ord-1.pdf'']"
    by auto
  with example_has_window f fails none url call show ?thesis
    by (intro conjI) assumption+
qed

subsection \<open>The height of a section box and the start of the table\<close>

lemma foldl_plus: "foldl (\<lambda>sum r. sum + f r) (a::nat) xs = a + sum_list (map f xs)"
  by (induction xs arbitrary: a) simp_all

lemma sectionBox_height_eq:
  "sectionBox_height e d p =
     9 + (4 + 4 + 4) + 4.8 * of_nat (sum_list (map (\<lambda>r. line_count (snd r)) (wrappedValues e d p)))"
  by (simp add: sectionBox_height_def Let_def foldl_plus)

lemma length_wrappedValues: "length (wrappedValues e d p) = length (box_rows p)"
  by (simp add: wrappedValues_def Let_def)

lemma sum_list_const_one: "(\<And>x. x \<in> set xs \<Longrightarrow> f x = (1::nat)) \<Longrightarrow> sum_list (map f xs) = length xs"
  by (induction xs) simp_all

lemma one_line_each_height:
  assumes "one_line_each e d p"
  shows "sectionBox_height e d p = 21 + 4.8 * of_nat (length (box_rows p))"
proof -
  have "line_count (snd r) = 1" if "r \<in> set (wrappedValues e d p)" for r
  proof -
    from assms that have "length (snd r) \<le> 1"
      by (simp add: one_line_each_def list_all_iff)
    then show ?thesis
      by (cases "snd r") (simp_all add: line_count_def)
  qed
  then have "sum_list (map (\<lambda>r. line_count (snd r)) (wrappedValues e d p)) =
             length (wrappedValues e d p)"
    by (rule sum_list_const_one)
  then show ?thesis
    by (simp add: sectionBox_height_eq length_wrappedValues)
qed

lemma calls_grow_fold:
  assumes "\<And>x d. \<exists>cs. calls (f x d) = calls d @ cs"
  shows "\<exists>cs. calls (fold f xs d) = calls d @ cs"
proof (induction xs arbitrary: d)
  case Nil
  show ?case by simp
next
  case (Cons x xs)
  from assms obtain cs1 where "calls (f x d) = calls d @ cs1" by blast
  moreover from Cons obtain cs2 where "calls (fold f xs (f x d)) = calls (f x d) @ cs2" by blast
  ultimately show ?case by simp
qed

lemma calls_grow_fold_snd:
  assumes "\<And>x st. \<exists>cs. calls (snd (f x st)) = calls (snd st) @ cs"
  shows "\<exists>cs. calls (snd (fold f xs st)) = calls (snd st) @ cs"
proof (induction xs arbitrary: st)
  case Nil
  show ?case by simp
next
  case (Cons x xs)
  from assms obtain cs1 where "calls (snd (f x st)) = calls (snd st) @ cs1" by blast
  moreover from Cons obtain cs2 where
    "calls (snd (fold f xs (f x st))) = calls (snd (f x st)) @ cs2" by blast
  ultimately show ?case by simp
qed

lemma calls_grow_row:
  "\<exists>cs. calls (snd (drawSectionBox_row x px lw rg r st)) = calls (snd st) @ cs"
proof -
  let ?D = "setTextColor (20, 20, 20) (setFontSize 9.2 (setFont ''times'' ''normal''
              (text_at (fst r) (x + px) (fst st) None (setTextColor TEXT_MUTED
                (setFontSize 8.8 (setFont ''helvetica'' ''bold'' (snd st)))))))"
  have "\<exists>cs. calls (fold (\<lambda>(idx, ln). text_at ln a (b + of_nat idx * rg) None) ys d) = calls d @ cs"
    for a b ys d
    by (rule calls_grow_fold) (simp add: case_prod_beta calls_primitives)
  then obtain cs where
    "calls (fold (\<lambda>(idx, ln). text_at ln (x + px + lw) (fst st + of_nat idx * rg) None)
              (enumerate 0 (snd r)) ?D) = calls ?D @ cs"
    by blast
  moreover have "\<exists>ds. calls ?D = calls (snd st) @ ds"
    by (simp add: calls_primitives)
  ultimately show ?thesis
    by (auto simp: drawSectionBox_row_def Let_def)
qed

lemma calls_grow_rows:
  "\<exists>cs. calls (snd (fold (drawSectionBox_row x px lw rg) ws st)) = calls (snd st) @ cs"
  by (rule calls_grow_fold_snd) (rule calls_grow_row)

lemma roundedRect_drawn:
  "RoundedRect (box_x p) (box_y p) (box_w p) (sectionBox_height e d p) 2 2
     \<in> set (calls (fst (drawSectionBox e d p)))"
proof -
  let ?d = "text_at (box_title p) (box_x p + 4) (box_y p + 6.3) None
             (setTextColor (40, 40, 40) (setFontSize 10 (setFont ''helvetica'' ''bold''
               (rect (box_x p) (box_y p) (box_w p) 9 ''F'' (setFillColor BG_SOFT
                 (roundedRect (box_x p) (box_y p) (box_w p) (sectionBox_height e d p) 2 2
                   (setLineWidth 0.2 (setDrawColor BORDER_GRAY d))))))))"
  obtain cs where
    "calls (snd (fold (drawSectionBox_row (box_x p) 4 24 4.8) (wrappedValues e d p)
                   (box_y p + 9 + 4 + 2, ?d))) = calls ?d @ cs"
    using calls_grow_rows [of "box_x p" 4 24 "4.8" "wrappedValues e d p" "(box_y p + 9 + 4 + 2, ?d)"]
    by auto
  then show ?thesis
    by (simp add: drawSectionBox_def Let_def calls_primitives)
qed

lemma example_one_line: "one_line_each example_env d p"
  by (simp add: one_line_each_def wrappedValues_def Let_def doc_splitTextToSize_def
      example_env_def list_all_iff)

lemma example_rows:
  "length (box_rows (leftBoxParams example_env example_invoice)) = 2"
  "length (box_rows (rightBoxParams example_env example_invoice)) = 5"
  by (simp_all add: leftBoxParams_def rightBoxParams_def Let_def leftRows_def rightRows_def
      optional_row_def truthy_string_def toDateSafe_def nullish_def client_property_def
      example_invoice_def empty_object_def example_client_record_def)

lemma example_heights:
  "leftHeight example_env d example_invoice = 153 / 5"
  "rightHeight example_env d example_invoice = 45"
  by (simp_all add: leftHeight_def rightHeight_def one_line_each_height example_one_line
      example_rows)

text \<open>
  C5, as stated, fails in its last part: in the example the left box has two rows and
  is 30.6 high, the right box has five rows and is 45 high, the boxes start at 36, and
  the table starts at 93, which is 12 below \<open>contentTop + max leftHeight rightHeight\<close>,
  that is 81.
\<close>

theorem table_start_counterexample:
  "generateInvoicePDF example_env (Object example_invoice) Undefined Undefined =
     Inr (Some example_rendering) \<and>
   length (box_rows (leftBoxParams example_env example_invoice)) = 2 \<and>
   length (box_rows (rightBoxParams example_env example_invoice)) = 5 \<and>
   leftHeight example_env (drawHeader example_env None) example_invoice = 153 / 5 \<and>
   rightHeight example_env (drawHeader example_env None) example_invoice = 45 \<and>
   contentTop = 36 \<and>
   table_starts example_rendering = [93] \<and>
   table_starts example_rendering \<noteq>
     [contentTop + max (leftHeight example_env (drawHeader example_env None) example_invoice)
                       (rightHeight example_env (drawHeader example_env None) example_invoice)]"
proof -
  have c: "contentTop = 36"
    by (simp add: contentTop_def headerBandH_def)
  have "table_starts example_rendering = [93]"
    by (simp add: example_rendering_def table_starts_rendering example_heights c)
  with example_call example_rows c show ?thesis
    by (simp add: example_heights)
qed

text \<open>
  C5, amended. Each section box returns the height of the rectangle it draws: the
  header band (9), three paddings (4 each) and 4.8 for every wrapped line of every row
  (a row with no line counting for one); a box of five rows is higher than a box of two
  rows when every value fits on one line; and the items table starts at
  \<open>contentTop + max leftHeight rightHeight + 12\<close>, a fixed gap of 12 below the taller box.
\<close>

theorem box_heights_and_table_start:
  "snd (drawSectionBox e d p) =
     9 + (4 + 4 + 4) + 4.8 * of_nat (sum_list (map (\<lambda>r. line_count (snd r)) (wrappedValues e d p))) \<and>
   RoundedRect (box_x p) (box_y p) (box_w p) (snd (drawSectionBox e d p)) 2 2
     \<in> set (calls (fst (drawSectionBox e d p))) \<and>
   (one_line_each e d l \<and> one_line_each e d' r \<and> box_w l = box_w r \<and>
    length (box_rows l) = 2 \<and> length (box_rows r) = 5 \<longrightarrow>
      snd (drawSectionBox e d l) < snd (drawSectionBox e d' r)) \<and>
   leftHeight e d v = snd (drawSectionBox e d (leftBoxParams e v)) \<and>
   rightHeight e d v =
     snd (drawSectionBox e (fst (drawSectionBox e d (leftBoxParams e v))) (rightBoxParams e v)) \<and>
   (generateInvoicePDF e arg1 arg2 arg3 = Inr (Some out) \<longrightarrow>
      (\<exists>w. invoice_of_call arg1 arg2 = Inr w \<and>
           table_starts out =
             [contentTop +
              max (leftHeight e (drawHeader e (call_options arg2 arg3)) w)
                  (rightHeight e (drawHeader e (call_options arg2 arg3)) w) + 12]))"
proof (intro conjI impI)
  show "snd (drawSectionBox e d p) =
     9 + (4 + 4 + 4) + 4.8 * of_nat (sum_list (map (\<lambda>r. line_count (snd r)) (wrappedValues e d p)))"
    by (simp only: snd_drawSectionBox sectionBox_height_eq)
  show "RoundedRect (box_x p) (box_y p) (box_w p) (snd (drawSectionBox e d p)) 2 2
     \<in> set (calls (fst (drawSectionBox e d p)))"
    by (simp only: snd_drawSectionBox roundedRect_drawn)
  show "leftHeight e d v = snd (drawSectionBox e d (leftBoxParams e v))"
    by (simp add: leftHeight_def snd_drawSectionBox)
  show "rightHeight e d v =
     snd (drawSectionBox e (fst (drawSectionBox e d (leftBoxParams e v))) (rightBoxParams e v))"
    by (simp add: rightHeight_def snd_drawSectionBox)
next
  assume "one_line_each e d l \<and> one_line_each e d' r \<and> box_w l = box_w r \<and>
    length (box_rows l) = 2 \<and> length (box_rows r) = 5"
  then show "snd (drawSectionBox e d l) < snd (drawSectionBox e d' r)"
    by (simp add: snd_drawSectionBox one_line_each_height)
next
  assume "generateInvoicePDF e arg1 arg2 arg3 = Inr (Some out)"
  then obtain w where "invoice_of_call arg1 arg2 = Inr w"
    and "out = renderBody e (drawHeader e (call_options arg2 arg3)) w"
    by (auto simp: generateInvoicePDF_completes)
  then show "\<exists>w. invoice_of_call arg1 arg2 = Inr w \<and>
           table_starts out =
             [contentTop +
              max (leftHeight e (drawHeader e (call_options arg2 arg3)) w)
                  (rightHeight e (drawHeader e (call_options arg2 arg3)) w) + 12]"
    by (simp add: table_starts_rendering)
qed

theorem box_heights_and_table_start_witness:
  "one_line_each example_env new_jsPDF (leftBoxParams example_env example_invoice) \<and>
   one_line_each example_env new_jsPDF (rightBoxParams example_env example_invoice) \<and>
   box_w (leftBoxParams example_env example_invoice) =
   box_w (rightBoxParams example_env example_invoice) \<and>
   length (box_rows (leftBoxParams example_env example_invoice)) = 2 \<and>
   length (box_rows (rightBoxParams example_env example_invoice)) = 5 \<and>
   snd (drawSectionBox example_env new_jsPDF (leftBoxParams example_env example_invoice)) <
   snd (drawSectionBox example_env new_jsPDF (rightBoxParams example_env example_invoice)) \<and>
   generateInvoicePDF example_env (Object example_invoice) Undefined Undefined =
     Inr (Some example_rendering) \<and>
   table_starts example_rendering = [36 + max (153 / 5) 45 + 12]"
proof -
  have v: "invoice_of_call (Object example_invoice) Undefined = Inr example_invoice"
    by (simp add: invoice_of_unified_call not_isClientOrderCall_Undefined)
  have w: "box_w (leftBoxParams example_env example_invoice) =
           box_w (rightBoxParams example_env example_invoice)"
    by (simp add: leftBoxParams_def rightBoxParams_def Let_def)
  have c: "contentTop = 36"
    by (simp add: contentTop_def headerBandH_def)
  note T = box_heights_and_table_start [of example_env new_jsPDF
      "leftBoxParams example_env example_invoice" "leftBoxParams example_env example_invoice"
      new_jsPDF "rightBoxParams example_env example_invoice" example_invoice
      "Object example_invoice" Undefined Undefined example_rendering]
  note lt_imp = T [THEN conjunct2, THEN conjunct2, THEN conjunct1, rule_format]
  note start_imp = T [THEN conjunct2, THEN conjunct2, THEN conjunct2, THEN conjunct2,
      THEN conjunct2, rule_format]
  have lt: "snd (drawSectionBox example_env new_jsPDF (leftBoxParams example_env example_invoice)) <
   snd (drawSectionBox example_env new_jsPDF (rightBoxParams example_env example_invoice))"
    by (rule lt_imp) (simp add: w example_rows example_one_line)
  from start_imp [OF example_call] obtain u
    where "invoice_of_call (Object example_invoice) Undefined = Inr u"
    and s: "table_starts example_rendering =
             [contentTop +
              max (leftHeight example_env (drawHeader example_env (call_options Undefined Undefined)) u)
                  (rightHeight example_env (drawHeader example_env (call_options Undefined Undefined)) u)
              + 12]"
    by (elim exE conjE)
  with v have "u = example_invoice" by simp
  with s c have "table_starts example_rendering = [36 + max (153 / 5) 45 + 12]"
    by (simp only: example_heights)
  with example_call lt w example_rows
    example_one_line [of new_jsPDF "leftBoxParams example_env example_invoice"]
    example_one_line [of new_jsPDF "rightBoxParams example_env example_invoice"]
  show ?thesis
    by (intro conjI) assumption+
qed

subsection \<open>The issue date\<close>



lemma grows_subset: "\<exists>cs. calls d' = calls d @ cs \<Longrightarrow> c \<in> set (calls d) \<Longrightarrow> c \<in> set (calls d')"
  by auto




















subsection \<open>The company profile\<close>

lemma truthy_trimmed_string: "truthy_string (trimmed_string v) = has_text v"
  by (simp add: truthy_string_def trimmed_string_def has_text_def
      split: option.splits json.splits)

lemma all_returned_Returns: "all_returned rs = Returns ys \<Longrightarrow> rs = map Returns ys"
proof (induction rs arbitrary: ys)
  case Nil
  then show ?case by simp
next
  case (Cons r rs)
  then show ?case
    by (cases r) (auto split: outcome.splits)
qed

lemma some_length_trimmed_strings:
  assumes "trimmed_strings e v = Returns l"
  shows "some_length (nonempty_list l) = has_entry e v"
proof (cases "\<exists>xs. v = Some (JArray xs)")
  case False
  with assms show ?thesis
    by (auto simp: trimmed_strings_def has_entry_def some_length_def nonempty_list_def
        split: option.splits json.splits)
next
  case True
  then obtain xs where v: "v = Some (JArray xs)" by blast
  with assms obtain ss where ss: "all_returned (map (String_nullish e) xs) = Returns ss"
    and l: "l = Some (filter_Boolean (map trim ss))"
    by (auto simp: trimmed_strings_def split: outcome.splits)
  from ss have m: "map (String_nullish e) xs = map Returns ss"
    by (rule all_returned_Returns)
  have "list_ex (\<lambda>p. case String_nullish e p of Throws \<Rightarrow> False | Returns t \<Rightarrow> trim t \<noteq> []) xs
        \<longleftrightarrow> (\<exists>r \<in> set (map (String_nullish e) xs).
               case r of Throws \<Rightarrow> False | Returns t \<Rightarrow> trim t \<noteq> [])"
    by (simp add: list_ex_iff)
  also have "\<dots> \<longleftrightarrow> (\<exists>t \<in> set ss. trim t \<noteq> [])"
    by (simp only: m) simp
  finally show ?thesis
    by (auto simp: v l has_entry_def some_length_def nonempty_list_def filter_Boolean_def
        filter_empty_conv)
qed

lemma company_of_content:
  assumes "company_of e parsed = Returns c"
  shows "company_name c = trimmed_string (property parsed ''name'')"
    and "company_email c = trimmed_string (property parsed ''email'')"
    and "some_length (phoneNumbers c) = has_entry e (property parsed ''phoneNumbers'')"
    and "some_length (addresses c) = has_entry e (property parsed ''addresses'')"
  using assms
  by (auto simp: company_of_def some_length_trimmed_strings split: outcome.splits)

lemma company_of_has_content:
  assumes "company_of e parsed = Returns c"
  shows "truthy_string (company_name c) \<or> truthy_string (company_email c) \<or>
         some_length (phoneNumbers c) \<or> some_length (addresses c) \<longleftrightarrow>
         profile_has_content e parsed"
  by (simp add: company_of_content [OF assms] truthy_trimmed_string profile_has_content_def)

lemma loadCompanyProfileFromStorage_eq:
  "loadCompanyProfileFromStorage e =
     (case stored_profile e of
        None \<Rightarrow> None
      | Some parsed \<Rightarrow>
          (case company_of e parsed of
             Throws \<Rightarrow> None
           | Returns c \<Rightarrow> if profile_has_content e parsed then Some c else None))"
proof -
  have "loadCompanyProfileFromStorage e =
     (case stored_profile e of
        None \<Rightarrow> None
      | Some parsed \<Rightarrow>
          (case company_of e parsed of
             Throws \<Rightarrow> None
           | Returns c \<Rightarrow>
               if truthy_string (company_name c) \<or> truthy_string (company_email c) \<or>
                  some_length (phoneNumbers c) \<or> some_length (addresses c)
               then Some c else None))"
    by (simp add: loadCompanyProfileFromStorage_def stored_profile_def
        split: outcome.splits option.splits json.splits)
  then show ?thesis
    by (auto simp: company_of_has_content split: option.splits outcome.splits)
qed

lemma stored_profile_None:
  "getItem e ''companyProfile'' = Throws \<or> getItem e ''companyProfile'' = Returns None \<or>
   (\<exists>raw. getItem e ''companyProfile'' = Returns (Some raw) \<and> JSON_parse e raw = Throws) \<Longrightarrow>
   stored_profile e = None"
  by (auto simp: stored_profile_def)

lemma drawCompanyBlock_None: "drawCompanyBlock e None d = d"
  by (simp add: drawCompanyBlock_def company_guard_def)

lemma company_texts_append: "company_texts (xs @ ys) = company_texts xs @ company_texts ys"
  by (simp add: company_texts_def)

lemma company_texts_simps:
  "company_texts [] = []"
  "company_texts (SetFillColor col # cs) = company_texts cs"
  "company_texts (SetDrawColor col # cs) = company_texts cs"
  "company_texts (SetTextColor col # cs) = company_texts cs"
  "company_texts (SetLineWidth lw # cs) = company_texts cs"
  "company_texts (SetFont f st # cs) = company_texts cs"
  "company_texts (SetFontSize sz # cs) = company_texts cs"
  "company_texts (Rect x y w h style # cs) = company_texts cs"
  "company_texts (RoundedRect x y w h rx ry # cs) = company_texts cs"
  "company_texts (AddImage img fmt x y w h # cs) = company_texts cs"
  "company_texts (Text s x y None # cs) = company_texts cs"
  "company_texts (Text s x y (Some ''center'') # cs) = company_texts cs"
  "company_texts (Text s x y (Some ''right'') # cs) = company_texts cs"
  "company_texts (Text s x y (Some ''left'') # cs) = s # company_texts cs"
  "company_texts (Line x1 y1 x2 y2 # cs) = company_texts cs"
  "company_texts (AutoTable opts # cs) = company_texts cs"
  "company_texts (SetPage p # cs) = company_texts cs"
  "company_texts (Save file # cs) = company_texts cs"
  by (simp_all add: company_texts_def)

lemma company_texts_fold:
  assumes "\<And>x d. company_texts (calls (f x d)) = company_texts (calls d)"
  shows "company_texts (calls (fold f xs d)) = company_texts (calls d)"
  using assms by (induction xs arbitrary: d) simp_all

lemma company_texts_fold_snd:
  assumes "\<And>x st. company_texts (calls (snd (f x st))) = company_texts (calls (snd st))"
  shows "company_texts (calls (snd (fold f xs st))) = company_texts (calls (snd st))"
  using assms by (induction xs arbitrary: st) simp_all

lemma company_texts_drawHeaderBand:
  "company_texts (calls (drawHeaderBand e d)) = company_texts (calls d)"
  by (simp add: drawHeaderBand_def Let_def calls_primitives company_texts_append
      company_texts_simps)

lemma company_texts_drawLogo:
  "company_texts (calls (drawLogo e l d)) = company_texts (calls d)"
  using calls_drawLogo [of e l d] by (auto simp: company_texts_append company_texts_simps)

lemma company_texts_drawTitle:
  "company_texts (calls (drawTitle e d)) = company_texts (calls d)"
  by (simp add: drawTitle_def Let_def calls_primitives company_texts_append
      company_texts_simps)

lemma company_texts_drawSectionBox_row:
  "company_texts (calls (snd (drawSectionBox_row x px lw rg r st))) =
   company_texts (calls (snd st))"
proof -
  have "company_texts (calls (fold (\<lambda>(idx, ln). text_at ln a (b + of_nat idx * rg) None) ys d)) =
        company_texts (calls d)" for a b ys d
    by (rule company_texts_fold)
       (simp add: case_prod_beta calls_primitives company_texts_append company_texts_simps)
  then show ?thesis
    by (simp add: drawSectionBox_row_def Let_def calls_primitives company_texts_append
        company_texts_simps)
qed

lemma company_texts_drawSectionBox:
  "company_texts (calls (fst (drawSectionBox e d p))) = company_texts (calls d)"
proof -
  have "company_texts (calls (snd (fold (drawSectionBox_row x px lw rg) ws st))) =
        company_texts (calls (snd st))" for x px lw rg ws st
    by (rule company_texts_fold_snd) (rule company_texts_drawSectionBox_row)
  then show ?thesis
    by (simp add: drawSectionBox_def Let_def calls_primitives company_texts_append
        company_texts_simps)
qed

lemma company_texts_drawTotals:
  "company_texts (calls (drawTotals e v y d)) = company_texts (calls d)"
  by (simp add: drawTotals_def Let_def calls_primitives company_texts_append
      company_texts_simps)

lemma company_texts_drawFooters:
  "company_texts (calls (drawFooters e n d)) = company_texts (calls d)"
  unfolding drawFooters_def
  by (rule company_texts_fold)
     (simp add: drawFooter_def Let_def calls_primitives company_texts_append
        company_texts_simps)

lemma company_texts_renderBody:
  "company_texts (calls (document (renderBody e d v))) = company_texts (calls d)"
  by (simp add: renderBody_def Let_def case_prod_beta calls_primitives company_texts_append
      company_texts_simps company_texts_drawFooters company_texts_drawTotals
      company_texts_drawSectionBox)

lemma company_texts_no_block:
  "company_texts (calls (document (renderBody e (drawTitle e (drawLogo e l (drawHeaderBand e new_jsPDF))) v))) = []"
  by (simp add: company_texts_renderBody company_texts_drawTitle company_texts_drawLogo
      company_texts_drawHeaderBand calls_new_jsPDF company_texts_simps)

text \<open>
  C9. The company profile loaded from the storage is present only if its name or its
  email is a string that is not blank after trimming, or one of its phone numbers or
  addresses is not blank after trimming; its fields are then the trimmed ones.
  Otherwise, and when there is no stored entry, when reading it throws or when it does
  not parse, the loader returns nothing. A call in a browser whose invoice can be read
  and whose options carry no company then returns normally: its document is the body
  drawn under a header made of the band, the logo and the title alone, it has none of
  the texts of a company block, and it is saved under the name of the invoice.
\<close>

theorem company_profile_presence:
  "loadCompanyProfileFromStorage e =
     (case stored_profile e of
        None \<Rightarrow> None
      | Some parsed \<Rightarrow>
          (case company_of e parsed of
             Throws \<Rightarrow> None
           | Returns c \<Rightarrow> if profile_has_content e parsed then Some c else None)) \<and>
   (company_of e parsed = Returns c \<longrightarrow>
      company_name c = trimmed_string (property parsed ''name'') \<and>
      company_email c = trimmed_string (property parsed ''email'') \<and>
      truthy_string (company_name c) = has_text (property parsed ''name'') \<and>
      truthy_string (company_email c) = has_text (property parsed ''email'') \<and>
      some_length (phoneNumbers c) = has_entry e (property parsed ''phoneNumbers'') \<and>
      some_length (addresses c) = has_entry e (property parsed ''addresses'')) \<and>
   (loadCompanyProfileFromStorage e = Some c \<longrightarrow>
      truthy_string (company_name c) \<or> truthy_string (company_email c) \<or>
      some_length (phoneNumbers c) \<or> some_length (addresses c)) \<and>
   (getItem e ''companyProfile'' = Throws \<or> getItem e ''companyProfile'' = Returns None \<or>
    (\<exists>raw. getItem e ''companyProfile'' = Returns (Some raw) \<and> JSON_parse e raw = Throws) \<longrightarrow>
      loadCompanyProfileFromStorage e = None) \<and>
   (loadCompanyProfileFromStorage e = None \<and>
    (case call_options arg2 arg3 of None \<Rightarrow> None | Some ob \<Rightarrow> company ob) = None \<and>
    has_window e \<and> invoice_of_call arg1 arg2 = Inr v \<longrightarrow>
      (\<exists>out. generateInvoicePDF e arg1 arg2 arg3 = Inr (Some out) \<and>
             out = renderBody e
                     (drawTitle e
                        (drawLogo e (loadImageAsDataUrl e (option_logoUrl (call_options arg2 arg3)))
                           (drawHeaderBand e new_jsPDF))) v \<and>
             company_texts (calls (document out)) = [] \<and>
             saved_files (calls (document out)) =
               [safeFile (nullish (invoiceNumber v) []) @ ''.pdf'']))"
proof (intro conjI impI)
  show "loadCompanyProfileFromStorage e =
     (case stored_profile e of
        None \<Rightarrow> None
      | Some parsed \<Rightarrow>
          (case company_of e parsed of
             Throws \<Rightarrow> None
           | Returns c \<Rightarrow> if profile_has_content e parsed then Some c else None))"
    by (rule loadCompanyProfileFromStorage_eq)
next
  assume c: "company_of e parsed = Returns c"
  show "company_name c = trimmed_string (property parsed ''name'')"
    "company_email c = trimmed_string (property parsed ''email'')"
    "truthy_string (company_name c) = has_text (property parsed ''name'')"
    "truthy_string (company_email c) = has_text (property parsed ''email'')"
    "some_length (phoneNumbers c) = has_entry e (property parsed ''phoneNumbers'')"
    "some_length (addresses c) = has_entry e (property parsed ''addresses'')"
    by (simp_all add: company_of_content [OF c] truthy_trimmed_string)
next
  assume "loadCompanyProfileFromStorage e = Some c"
  then show "truthy_string (company_name c) \<or> truthy_string (company_email c) \<or>
      some_length (phoneNumbers c) \<or> some_length (addresses c)"
    by (auto simp: loadCompanyProfileFromStorage_eq company_of_has_content
        split: option.splits outcome.splits if_splits)
next
  assume "getItem e ''companyProfile'' = Throws \<or> getItem e ''companyProfile'' = Returns None \<or>
    (\<exists>raw. getItem e ''companyProfile'' = Returns (Some raw) \<and> JSON_parse e raw = Throws)"
  then have "stored_profile e = None"
    by (rule stored_profile_None)
  then show "loadCompanyProfileFromStorage e = None"
    by (simp add: loadCompanyProfileFromStorage_eq)
next
  let ?opts = "call_options arg2 arg3"
  let ?h = "drawTitle e (drawLogo e (loadImageAsDataUrl e (option_logoUrl ?opts))
                           (drawHeaderBand e new_jsPDF))"
  assume a: "loadCompanyProfileFromStorage e = None \<and>
    (case ?opts of None \<Rightarrow> None | Some ob \<Rightarrow> company ob) = None \<and>
    has_window e \<and> invoice_of_call arg1 arg2 = Inr v"
  then have "option_company e ?opts = None"
    by (simp add: option_company_def nullish_opt_def)
  then have header: "drawHeader e ?opts = ?h"
    by (simp add: drawHeader_def Let_def drawCompanyBlock_None)
  with a have gen: "generateInvoicePDF e arg1 arg2 arg3 = Inr (Some (renderBody e ?h v))"
    by (simp add: generateInvoicePDF_completes)
  have texts: "company_texts (calls (document (renderBody e ?h v))) = []"
    by (rule company_texts_no_block)
  have "saved_files (calls (document (renderBody e (drawHeader e ?opts) v))) =
          [safeFile (nullish (invoiceNumber v) []) @ ''.pdf'']"
    by (rule saved_files_rendering)
  with header have saved: "saved_files (calls (document (renderBody e ?h v))) =
          [safeFile (nullish (invoiceNumber v) []) @ ''.pdf'']"
    by simp
  from gen texts saved
  show "\<exists>out. generateInvoicePDF e arg1 arg2 arg3 = Inr (Some out) \<and>
             out = renderBody e ?h v \<and>
             company_texts (calls (document out)) = [] \<and>
             saved_files (calls (document out)) =
               [safeFile (nullish (invoiceNumber v) []) @ ''.pdf'']"
    by simp
qed

lemma example_profiles:
  "loadCompanyProfileFromStorage blank_profile_env = None"
  "loadCompanyProfileFromStorage broken_profile_env = None"
  "loadCompanyProfileFromStorage unprintable_profile_env = None"
  "loadCompanyProfileFromStorage acme_profile_env =
     Some \<lparr>company_name = Some ''Acme'', company_email = None,
            phoneNumbers = None, addresses = None\<rparr>"
  by code_simp+

lemma acme_company_texts:
  "company_texts (calls (drawHeader acme_profile_env None)) = [''Acme'']"
  by code_simp

theorem company_profile_presence_witness:
  "loadCompanyProfileFromStorage blank_profile_env = None \<and>
   stored_profile blank_profile_env = Some blank_profile \<and>
   property blank_profile ''name'' = Some (JString [CHR 0xC2, CHR 0xA0, CHR '' '']) \<and>
   \<not> profile_has_content blank_profile_env blank_profile \<and>
   JSON_parse broken_profile_env ''{'' = Throws \<and>
   loadCompanyProfileFromStorage broken_profile_env = None \<and>
   company_of unprintable_profile_env unprintable_profile = Throws \<and>
   loadCompanyProfileFromStorage unprintable_profile_env = None \<and>
   company_of acme_profile_env acme_profile =
     Returns \<lparr>company_name = Some ''Acme'', company_email = None,
            phoneNumbers = None, addresses = None\<rparr> \<and>
   has_text (property acme_profile ''name'') \<and>
   loadCompanyProfileFromStorage acme_profile_env =
     Some \<lparr>company_name = Some ''Acme'', company_email = None,
            phoneNumbers = None, addresses = None\<rparr> \<and>
   generateInvoicePDF blank_profile_env (Object example_invoice) Undefined Undefined =
     Inr (Some (renderBody blank_profile_env
                  (drawTitle blank_profile_env
                     (drawLogo blank_profile_env
                        (loadImageAsDataUrl blank_profile_env (option_logoUrl None))
                        (drawHeaderBand blank_profile_env new_jsPDF)))
                  example_invoice)) \<and>
   company_texts (calls (document (renderBody blank_profile_env
                  (drawTitle blank_profile_env
                     (drawLogo blank_profile_env
                        (loadImageAsDataUrl blank_profile_env (option_logoUrl None))
                        (drawHeaderBand blank_profile_env new_jsPDF)))
                  example_invoice))) = [] \<and>
   saved_files (calls (document (renderBody blank_profile_env
                  (drawTitle blank_profile_env
                     (drawLogo blank_profile_env
                        (loadImageAsDataUrl blank_profile_env (option_logoUrl None))
                        (drawHeaderBand blank_profile_env new_jsPDF)))
                  example_invoice))) = [''inv-2024-07.pdf''] \<and>
   generateInvoicePDF acme_profile_env (Object example_invoice) Undefined Undefined =
     Inr (Some (renderBody acme_profile_env (drawHeader acme_profile_env None) example_invoice)) \<and>
   company_texts (calls (document (renderBody acme_profile_env (drawHeader acme_profile_env None)
                                     example_invoice))) = [''Acme'']"
proof -
  let ?acme = "\<lparr>company_name = Some ''Acme'', company_email = None,
                 phoneNumbers = None, addresses = None\<rparr>"
  let ?out = "renderBody blank_profile_env
                  (drawTitle blank_profile_env
                     (drawLogo blank_profile_env
                        (loadImageAsDataUrl blank_profile_env (option_logoUrl None))
                        (drawHeaderBand blank_profile_env new_jsPDF)))
                  example_invoice"
  have w: "has_window blank_profile_env" "has_window acme_profile_env"
    by (simp_all add: blank_profile_env_def acme_profile_env_def example_env_def)
  have v: "invoice_of_call (Object example_invoice) Undefined = Inr example_invoice"
    by (simp add: invoice_of_unified_call not_isClientOrderCall_Undefined)
  have stored: "stored_profile blank_profile_env = Some blank_profile"
    by code_simp
  have nbsp: "property blank_profile ''name'' = Some (JString [CHR 0xC2, CHR 0xA0, CHR '' ''])"
    by code_simp
  have blank: "\<not> profile_has_content blank_profile_env blank_profile"
    by code_simp
  have broken: "getItem broken_profile_env ''companyProfile'' = Returns (Some ''{'')"
    "JSON_parse broken_profile_env ''{'' = Throws"
    by (simp_all add: broken_profile_env_def)
  have unprintable: "company_of unprintable_profile_env unprintable_profile = Throws"
    by code_simp
  have acme: "company_of acme_profile_env acme_profile = Returns ?acme"
    by code_simp
  have name: "safeFile (nullish (invoiceNumber example_invoice) []) = ''inv-2024-07''"
    unfolding example_invoice_number by code_simp
  note T = company_profile_presence [of _ _ ?acme Undefined Undefined "Object example_invoice"
      example_invoice]
  note content = T [THEN conjunct2, THEN conjunct1, rule_format]
  note failure = T [THEN conjunct2, THEN conjunct2, THEN conjunct2, THEN conjunct1, rule_format]
  note no_block = T [THEN conjunct2, THEN conjunct2, THEN conjunct2, THEN conjunct2, rule_format]
  from content [of acme_profile_env acme_profile, OF acme]
  have named: "has_text (property acme_profile ''name'')"
    by (simp add: truthy_string_def)
  have none: "loadCompanyProfileFromStorage broken_profile_env = None"
    by (rule failure) (simp add: broken)
  have "\<exists>out. generateInvoicePDF blank_profile_env (Object example_invoice) Undefined Undefined =
                Inr (Some out) \<and>
              out = renderBody blank_profile_env
                     (drawTitle blank_profile_env
                        (drawLogo blank_profile_env
                           (loadImageAsDataUrl blank_profile_env
                              (option_logoUrl (call_options Undefined Undefined)))
                           (drawHeaderBand blank_profile_env new_jsPDF))) example_invoice \<and>
              company_texts (calls (document out)) = [] \<and>
              saved_files (calls (document out)) =
                [safeFile (nullish (invoiceNumber example_invoice) []) @ ''.pdf'']"
    by (rule no_block) (simp add: example_profiles w v call_options_Undefined)
  then have blank_call:
    "generateInvoicePDF blank_profile_env (Object example_invoice) Undefined Undefined =
       Inr (Some ?out)"
    "company_texts (calls (document ?out)) = []"
    "saved_files (calls (document ?out)) = [''inv-2024-07.pdf'']"
    by (auto simp: call_options_Undefined name)
  have acme_call:
    "generateInvoicePDF acme_profile_env (Object example_invoice) Undefined Undefined =
     Inr (Some (renderBody acme_profile_env (drawHeader acme_profile_env None) example_invoice))"
    by (simp add: generateInvoicePDF_unified not_isClientOrderCall_Undefined w)
  have acme_texts:
    "company_texts (calls (document (renderBody acme_profile_env (drawHeader acme_profile_env None)
                                     example_invoice))) = [''Acme'']"
    by (simp add: company_texts_renderBody acme_company_texts)
  from stored nbsp blank broken(2) unprintable acme named none blank_call acme_call acme_texts
    example_profiles
  show ?thesis
    by (intro conjI) assumption+
qed

end
